theory Spec2Isabelle
  imports Complex_Main "HOL-Library.Multiset"
begin

section \<open>JavaScript numbers\<close>

text \<open>
  A JavaScript \<open>number\<close> is an IEEE-754 double. The model keeps the three
  non-finite values apart from the finite ones and computes on finite values with
  exact real arithmetic: rounding, overflow to infinity and the sign of zero are not
  modelled. Numbers that the program reads from a JSON payload or from its
  configuration are finite and are modelled as \<open>real\<close>; \<open>jsnum\<close> is used where the
  source itself tests for finiteness.
\<close>

datatype jsnum = Fin real | PInf | NInf | NaN

fun isFinite :: "jsnum \<Rightarrow> bool" where
  "isFinite (Fin _) = True"
| "isFinite _ = False"

fun js_neg :: "jsnum \<Rightarrow> jsnum" where
  "js_neg (Fin a) = Fin (- a)"
| "js_neg PInf = NInf"
| "js_neg NInf = PInf"
| "js_neg NaN = NaN"

fun js_add :: "jsnum \<Rightarrow> jsnum \<Rightarrow> jsnum" where
  "js_add NaN _ = NaN"
| "js_add _ NaN = NaN"
| "js_add (Fin a) (Fin b) = Fin (a + b)"
| "js_add PInf NInf = NaN"
| "js_add NInf PInf = NaN"
| "js_add PInf _ = PInf"
| "js_add _ PInf = PInf"
| "js_add NInf _ = NInf"
| "js_add _ NInf = NInf"

definition js_sub :: "jsnum \<Rightarrow> jsnum \<Rightarrow> jsnum" where
  "js_sub a b = js_add a (js_neg b)"

fun js_mul :: "jsnum \<Rightarrow> jsnum \<Rightarrow> jsnum" where
  "js_mul NaN _ = NaN"
| "js_mul _ NaN = NaN"
| "js_mul (Fin a) (Fin b) = Fin (a * b)"
| "js_mul (Fin a) PInf = (if a = 0 then NaN else if 0 < a then PInf else NInf)"
| "js_mul (Fin a) NInf = (if a = 0 then NaN else if 0 < a then NInf else PInf)"
| "js_mul PInf (Fin b) = (if b = 0 then NaN else if 0 < b then PInf else NInf)"
| "js_mul NInf (Fin b) = (if b = 0 then NaN else if 0 < b then NInf else PInf)"
| "js_mul PInf PInf = PInf"
| "js_mul NInf NInf = PInf"
| "js_mul PInf NInf = NInf"
| "js_mul NInf PInf = NInf"

fun js_div :: "jsnum \<Rightarrow> jsnum \<Rightarrow> jsnum" where
  "js_div NaN _ = NaN"
| "js_div _ NaN = NaN"
| "js_div (Fin a) (Fin b) =
     (if b \<noteq> 0 then Fin (a / b)
      else if a = 0 then NaN else if 0 < a then PInf else NInf)"
| "js_div (Fin a) PInf = Fin 0"
| "js_div (Fin a) NInf = Fin 0"
| "js_div PInf (Fin b) = (if 0 \<le> b then PInf else NInf)"
| "js_div NInf (Fin b) = (if 0 \<le> b then NInf else PInf)"
| "js_div _ _ = NaN"

text \<open>\<open>Math.min\<close> and \<open>Math.max\<close>: \<open>NaN\<close> if an argument is \<open>NaN\<close>.\<close>

fun js_min :: "jsnum \<Rightarrow> jsnum \<Rightarrow> jsnum" where
  "js_min NaN _ = NaN"
| "js_min _ NaN = NaN"
| "js_min NInf _ = NInf"
| "js_min _ NInf = NInf"
| "js_min PInf b = b"
| "js_min a PInf = a"
| "js_min (Fin a) (Fin b) = Fin (min a b)"

fun js_max :: "jsnum \<Rightarrow> jsnum \<Rightarrow> jsnum" where
  "js_max NaN _ = NaN"
| "js_max _ NaN = NaN"
| "js_max PInf _ = PInf"
| "js_max _ PInf = PInf"
| "js_max NInf b = b"
| "js_max a NInf = a"
| "js_max (Fin a) (Fin b) = Fin (max a b)"

section \<open>Confidence score\<close>

text \<open>
  \<^verbatim>\<open>
  function calculateConfidencePercent(estimate, lower, upper) {
    if (estimate === 0 || !isFinite(estimate)) return 99;
    const range = upper - lower;
    const relativeRange = (range / estimate) * 100;
    const confidencePercent = 100 - (relativeRange / 2);
    return Math.max(0, Math.min(99, confidencePercent));
  }
  \<close>
\<close>

definition calculateConfidencePercent :: "jsnum \<Rightarrow> jsnum \<Rightarrow> jsnum \<Rightarrow> jsnum" where
  "calculateConfidencePercent estimate lower upper =
     (if estimate = Fin 0 \<or> \<not> isFinite estimate then Fin 99
      else
        let range = js_sub upper lower;
            relativeRange = js_mul (js_div range estimate) (Fin 100);
            confidencePercent = js_sub (Fin 100) (js_div relativeRange (Fin 2))
        in js_max (Fin 0) (js_min (Fin 99) confidencePercent))"


section \<open>Product types\<close>

text \<open>
  The interfaces of \<open>products/types.ts\<close>. An optional field \<open>f?: T\<close> is a
  \<open>T option\<close>. Field names that occur in several interfaces carry a suffix:
  \<open>_p\<close> in the product definition, \<open>_c\<close> in the user's override.
\<close>

datatype ProductCategory =
  Compute | Storage | Network | Security | Media | AI | Connectivity | Platform

datatype ProductScope = Zone | Account

datatype AggregationType = AggSum | AggCount | AggAvg | AggMax

datatype DimensionValue = DimString string | DimArray "string list"

record ProductDefinition =
  id_p :: string
  name_p :: string
  category_p :: ProductCategory
  description :: string
  defaultLimit :: real
  unit_p :: string
  dataset :: string
  field_p :: string
  scope_p :: ProductScope
  aggregation :: "AggregationType option"
  filterField :: "string option"
  enabledByDefault :: bool
  docsUrl :: "string option"
  transform :: "(real \<Rightarrow> real) option"
  unlimited_p :: "bool option"
  note_p :: "string option"
  dimensionFilters :: "(string \<times> DimensionValue) list option"

record ProductConfig =
  limit_c :: "real option"
  enabled_c :: "bool option"
  zoneTags_c :: "string list option"

record ProductRuntime = ProductDefinition +
  limit_p :: real
  enabled_p :: bool
  zoneTags :: "string list option"

record ConfidenceInterval =
  estimate :: real
  lower :: real
  upper :: real
  sampleSize :: real
  isValid :: bool
  level :: real
  confidencePercent :: "jsnum option"

record ProductUsageResult =
  productId :: string
  productName :: string
  category :: ProductCategory
  currentUsage :: real
  limit :: real
  unit_r :: string
  percentUsed :: real
  billingPeriodStart :: string
  billingPeriodEnd :: string
  scope :: ProductScope
  error :: "string option"
  queryDurationMs :: "real option"
  note_r :: "string option"
  enabled :: "bool option"
  unlimited :: "bool option"
  confidence :: "ConfidenceInterval option"

record UsageSummary =
  alerts :: "ProductUsageResult list"
  warnings :: "ProductUsageResult list"
  healthy :: "ProductUsageResult list"
  errors :: "ProductUsageResult list"
  timestamp :: string
  totalQueryDurationMs :: real

section \<open>Dates\<close>

text \<open>
  A \<open>Date\<close> is modelled by its calendar fields in the local time zone of the
  runtime, which is taken to be UTC (as it is on the Workers runtime), so that
  \<open>toISOString\<close> prints the same fields. Months count from 0 as in JavaScript.
  Only valid dates within the range of the \<open>Date\<close> type are modelled.
\<close>

record JsDate =
  fullYear :: int
  month :: int
  date :: int
  hours :: int
  minutes :: int
  seconds :: int
  milliseconds :: int

definition isLeapYear :: "int \<Rightarrow> bool" where
  "isLeapYear y = (y mod 4 = 0 \<and> (y mod 100 \<noteq> 0 \<or> y mod 400 = 0))"

definition daysInMonth :: "int \<Rightarrow> int \<Rightarrow> int" where
  "daysInMonth y m =
     (if m = 1 then (if isLeapYear y then 29 else 28)
      else if m = 3 \<or> m = 5 \<or> m = 8 \<or> m = 10 then 30 else 31)"

definition validDate :: "JsDate \<Rightarrow> bool" where
  "validDate d =
     (0 \<le> month d \<and> month d \<le> 11 \<and> 1 \<le> date d \<and> date d \<le> daysInMonth (fullYear d) (month d)
      \<and> 0 \<le> hours d \<and> hours d \<le> 23 \<and> 0 \<le> minutes d \<and> minutes d \<le> 59
      \<and> 0 \<le> seconds d \<and> seconds d \<le> 59 \<and> 0 \<le> milliseconds d \<and> milliseconds d \<le> 999)"

text \<open>
  The day normalisation of the abstract operation \<open>MakeDay\<close>: a day-of-month outside
  the month \<open>m\<close> (already within 0..11) of year \<open>y\<close> rolls over into the following or
  the preceding months.
\<close>

function normaliseDay :: "int \<Rightarrow> int \<Rightarrow> int \<Rightarrow> int \<times> int \<times> int" where
  "normaliseDay y m d =
     (if d < 1 then
        normaliseDay (if m = 0 then y - 1 else y) (if m = 0 then 11 else m - 1)
          (d + daysInMonth (if m = 0 then y - 1 else y) (if m = 0 then 11 else m - 1))
      else if daysInMonth y m < d then
        normaliseDay (if m = 11 then y + 1 else y) (if m = 11 then 0 else m + 1)
          (d - daysInMonth y m)
      else (y, m, d))"
  by pat_completeness auto
termination
  by (relation "measure (\<lambda>(y, m, d). if d < 1 then nat (1 - d) + 32 else nat d)")
     (auto simp: daysInMonth_def)

definition MakeDay :: "int \<Rightarrow> int \<Rightarrow> int \<Rightarrow> int \<times> int \<times> int" where
  "MakeDay y m d = normaliseDay (y + m div 12) (m mod 12) d"

text \<open>
  \<open>new Date(year, monthIndex, day, 0, 0, 0, 0)\<close>: local midnight. The constructor
  reads a year between 0 and 99 as a year of the twentieth century.
\<close>

definition newDate :: "int \<Rightarrow> int \<Rightarrow> int \<Rightarrow> JsDate" where
  "newDate y m d =
     (let yr = (if 0 \<le> y \<and> y \<le> 99 then 1900 + y else y);
          (y', m', d') = MakeDay yr m d
      in \<lparr>fullYear = y', month = m', date = d',
          hours = 0, minutes = 0, seconds = 0, milliseconds = 0\<rparr>)"

definition getFullYear :: "JsDate \<Rightarrow> int" where "getFullYear d = fullYear d"
definition getMonth :: "JsDate \<Rightarrow> int" where "getMonth d = month d"
definition getDate :: "JsDate \<Rightarrow> int" where "getDate d = date d"

text \<open>\<open>d.setMonth(m)\<close> keeps the day-of-month and the time of day.\<close>

definition setMonth :: "JsDate \<Rightarrow> int \<Rightarrow> JsDate" where
  "setMonth d m =
     (let (y', m', d') = MakeDay (fullYear d) m (date d)
      in d\<lparr>fullYear := y', month := m', date := d'\<rparr>)"

section \<open>Configuration (config.ts)\<close>

record BillingPeriodConfig =
  startDay :: int
  timezone :: string

record ContractConfig =
  alertThresholdPercent :: real
  warningThresholdPercent :: real
  productOverrides :: "(string \<times> ProductConfig) list"
  billingPeriod :: BillingPeriodConfig

definition CONTRACT_CONFIG :: ContractConfig where
  "CONTRACT_CONFIG =
     \<lparr>alertThresholdPercent = 90,
      warningThresholdPercent = 75,
      productOverrides =
        [(''http_requests'', \<lparr>limit_c = Some 3000000, enabled_c = Some True, zoneTags_c = None\<rparr>),
         (''bandwidth'', \<lparr>limit_c = Some (20 * 1024 * 1024 * 1024), enabled_c = Some True, zoneTags_c = None\<rparr>),
         (''workers_ai_requests'', \<lparr>limit_c = Some 35000, enabled_c = Some True, zoneTags_c = None\<rparr>)],
      billingPeriod = \<lparr>startDay = 1, timezone = ''UTC''\<rparr>\<rparr>"

text \<open>
  \<^verbatim>\<open>
  limit: override?.limit ?? definition.defaultLimit,
  enabled: override?.enabled ?? definition.enabledByDefault,
  zoneTags: override?.zoneTags ?? (definition.scope === 'zone' ? defaultZoneTags : undefined),
  \<close>
\<close>

definition mergeProductConfig ::
  "ProductDefinition \<Rightarrow> ProductConfig option \<Rightarrow> string list option \<Rightarrow> ProductRuntime" where
  "mergeProductConfig defn override defaultZoneTags =
     ProductDefinition.extend defn
       \<lparr>limit_p = (case Option.bind override limit_c of Some l \<Rightarrow> l | None \<Rightarrow> defaultLimit defn),
        enabled_p = (case Option.bind override enabled_c of Some e \<Rightarrow> e | None \<Rightarrow> enabledByDefault defn),
        zoneTags = (case Option.bind override zoneTags_c of Some zs \<Rightarrow> Some zs
                    | None \<Rightarrow> (if scope_p defn = Zone then defaultZoneTags else None))\<rparr>"



text \<open>
  \<open>getCurrentBillingPeriod\<close> reads the clock with \<open>new Date()\<close>; the reading is the
  parameter \<open>now\<close>.
  \<^verbatim>\<open>
  let start = new Date(now.getFullYear(), now.getMonth(), startDay, 0, 0, 0, 0);
  if (now.getDate() < startDay) {
    start = new Date(now.getFullYear(), now.getMonth() - 1, startDay, 0, 0, 0, 0);
  }
  const end = new Date(start);
  end.setMonth(end.getMonth() + 1);
  return { start, end };
  \<close>
\<close>

definition getCurrentBillingPeriod :: "ContractConfig \<Rightarrow> JsDate \<Rightarrow> JsDate \<times> JsDate" where
  "getCurrentBillingPeriod config now =
     (let startDay' = startDay (billingPeriod config);
          start = newDate (getFullYear now) (getMonth now) startDay';
          start = (if getDate now < startDay'
                   then newDate (getFullYear now) (getMonth now - 1) startDay'
                   else start);
          end = setMonth start (getMonth start + 1)
      in (start, end))"

section \<open>Query builder (graphql.ts)\<close>

record QueryFilterOptions =
  eyeballOnly :: "bool option"
  excludeEdgeWorkers :: "bool option"
  excludeBlocked :: "bool option"
  zoneId :: "string option"

definition NL :: string where "NL = [CHR 0x0A]"

definition TABS :: "nat \<Rightarrow> string" where "TABS n = replicate n (CHR 0x09)"

definition SPACES :: "nat \<Rightarrow> string" where "SPACES n = replicate n (CHR '' '')"

text \<open>\<open>Array.prototype.join\<close> on an array of strings.\<close>

fun join :: "string \<Rightarrow> string list \<Rightarrow> string" where
  "join sep [] = []"
| "join sep [x] = x"
| "join sep (x # y # ys) = x @ sep @ join sep (y # ys)"

definition CONFIDENCE_LEVEL :: real where "CONFIDENCE_LEVEL = 95 / 100"

definition NO_CONFIDENCE_DATASETS :: "string list" where
  "NO_CONFIDENCE_DATASETS = [''cacheReserveStorageAdaptiveGroups'', ''durableObjectsStorageGroups'']"

definition REQUEST_SOURCE_SUPPORTED_DATASETS :: "string list" where
  "REQUEST_SOURCE_SUPPORTED_DATASETS = [''httpRequestsAdaptiveGroups'']"

definition STATUS_FILTER_SUPPORTED_DATASETS :: "string list" where
  "STATUS_FILTER_SUPPORTED_DATASETS = [''httpRequestsAdaptiveGroups'']"

definition buildConfidenceBlock :: "bool \<Rightarrow> string \<Rightarrow> string \<Rightarrow> string" where
  "buildConfidenceBlock includeConfidence aggType fieldName =
     (if \<not> includeConfidence then []
      else
        let isCount = (aggType = ''count'')
        in NL @ TABS 4 @ ''confidence(level: 0.95) {''
         @ NL @ TABS 5 @ ''level''
         @ NL @ TABS 5 @ aggType @ '' {''
         @ NL @ TABS 6 @ (if \<not> isCount then fieldName @ '' {'' else [])
         @ NL @ TABS 6 @ ''estimate''
         @ NL @ TABS 6 @ ''lower''
         @ NL @ TABS 6 @ ''upper''
         @ NL @ TABS 6 @ ''sampleSize''
         @ NL @ TABS 6 @ ''isValid''
         @ NL @ TABS 6 @ (if \<not> isCount then ''}'' else [])
         @ NL @ TABS 5 @ ''}''
         @ NL @ TABS 4 @ ''}'')"

fun buildAggregationFields :: "string \<Rightarrow> AggregationType \<Rightarrow> bool \<Rightarrow> string" where
  "buildAggregationFields field AggCount includeConfidence =
     ''count'' @ buildConfidenceBlock includeConfidence ''count'' []"
| "buildAggregationFields field AggAvg includeConfidence =
     ''avg { '' @ field @ '' }'' @ buildConfidenceBlock includeConfidence ''avg'' field"
| "buildAggregationFields field AggMax includeConfidence =
     ''max { '' @ field @ '' }'' @ buildConfidenceBlock includeConfidence ''max'' field"
| "buildAggregationFields field AggSum includeConfidence =
     ''sum { '' @ field @ '' }'' @ buildConfidenceBlock includeConfidence ''sum'' field"

definition buildAdditionalFilters :: "string \<Rightarrow> QueryFilterOptions option \<Rightarrow> string" where
  "buildAdditionalFilters ds filters =
     (case filters of
        None \<Rightarrow> []
      | Some f \<Rightarrow>
          let conditions =
                (if eyeballOnly f = Some True \<and> ds \<in> set REQUEST_SOURCE_SUPPORTED_DATASETS
                 then [''requestSource: \"eyeball\"''] else [])
              @ (if excludeEdgeWorkers f = Some True \<and> ds \<in> set REQUEST_SOURCE_SUPPORTED_DATASETS
                 then [''requestSource_neq: \"edgeworker\"''] else [])
              @ (if excludeBlocked f = Some True \<and> ds \<in> set STATUS_FILTER_SUPPORTED_DATASETS
                 then [''edgeResponseStatus_neq: 403''] else [])
          in if conditions \<noteq> [] then '', '' @ join '', '' conditions else [])"

definition quoted :: "string \<Rightarrow> string" where
  "quoted v = ''\"'' @ v @ ''\"''"

fun dimensionCondition :: "string \<times> DimensionValue \<Rightarrow> string" where
  "dimensionCondition (key, DimArray vs) = key @ '': ['' @ join '', '' (map quoted vs) @ '']''"
| "dimensionCondition (key, DimString v) = key @ '': '' @ quoted v"

definition buildDimensionFilters :: "(string \<times> DimensionValue) list option \<Rightarrow> string" where
  "buildDimensionFilters dimFilters =
     (case dimFilters of
        None \<Rightarrow> []
      | Some [] \<Rightarrow> []
      | Some entries \<Rightarrow>
          let conditions = map dimensionCondition entries
          in if conditions \<noteq> [] then '', '' @ join '', '' conditions else [])"

record FilterConfig =
  filterStart :: string
  filterEnd :: string
  graphqlType :: string

definition getFilterConfig :: "string \<Rightarrow> FilterConfig" where
  "getFilterConfig ff =
     (if ff = ''date''
      then \<lparr>filterStart = ''date_geq'', filterEnd = ''date_lt'', graphqlType = ''Date''\<rparr>
      else if ff = ''datetimeHour''
      then \<lparr>filterStart = ''datetimeHour_geq'', filterEnd = ''datetimeHour_lt'', graphqlType = ''Time''\<rparr>
      else \<lparr>filterStart = ''datetime_geq'', filterEnd = ''datetime_lt'', graphqlType = ''Time''\<rparr>)"

text \<open>
  The two query templates. They differ in the operation name, the tag variable and
  the scope selector only.
\<close>

definition queryTemplate ::
  "string \<Rightarrow> string \<Rightarrow> string \<Rightarrow> string \<Rightarrow> FilterConfig \<Rightarrow> string \<Rightarrow> string \<Rightarrow> string \<Rightarrow> string" where
  "queryTemplate opName tagVar selector ds fc additionalFilters dimensionFilterStr aggregationFields =
     NL @ SPACES 4 @ ''query '' @ opName @ ''($'' @ tagVar @ '': String!, $start: '' @ graphqlType fc
        @ ''!, $end: '' @ graphqlType fc @ ''!) {''
   @ NL @ SPACES 6 @ ''viewer {''
   @ NL @ SPACES 8 @ selector @ ''(filter: { '' @ tagVar @ '': $'' @ tagVar @ '' }) {''
   @ NL @ SPACES 10 @ ds @ ''(''
   @ NL @ SPACES 12 @ ''filter: { '' @ filterStart fc @ '': $start, '' @ filterEnd fc @ '': $end''
        @ additionalFilters @ dimensionFilterStr @ '' }''
   @ NL @ SPACES 12 @ ''limit: 10000''
   @ NL @ SPACES 10 @ '') {''
   @ NL @ SPACES 12 @ aggregationFields
   @ NL @ SPACES 10 @ ''}''
   @ NL @ SPACES 8 @ ''}''
   @ NL @ SPACES 6 @ ''}''
   @ NL @ SPACES 4 @ ''}''
   @ NL @ SPACES 2"

definition buildZoneQuery ::
  "string \<Rightarrow> string \<Rightarrow> AggregationType \<Rightarrow> string \<Rightarrow> QueryFilterOptions option
     \<Rightarrow> (string \<times> DimensionValue) list option \<Rightarrow> string" where
  "buildZoneQuery ds field agg ff filters dimFilters =
     (let fc = getFilterConfig ff;
          includeConfidence = (ds \<notin> set NO_CONFIDENCE_DATASETS);
          aggregationFields = buildAggregationFields field agg includeConfidence;
          additionalFilters = buildAdditionalFilters ds filters;
          dimensionFilterStr = buildDimensionFilters dimFilters
      in queryTemplate ''ZoneUsage'' ''zoneTag'' ''zones'' ds fc additionalFilters
           dimensionFilterStr aggregationFields)"

definition buildAccountQuery ::
  "string \<Rightarrow> string \<Rightarrow> AggregationType \<Rightarrow> string \<Rightarrow> QueryFilterOptions option
     \<Rightarrow> (string \<times> DimensionValue) list option \<Rightarrow> string" where
  "buildAccountQuery ds field agg ff filters dimFilters =
     (let fc = getFilterConfig ff;
          includeConfidence = (ds \<notin> set NO_CONFIDENCE_DATASETS);
          aggregationFields = buildAggregationFields field agg includeConfidence;
          additionalFilters = buildAdditionalFilters ds filters;
          dimensionFilterStr = buildDimensionFilters dimFilters
      in queryTemplate ''AccountUsage'' ''accountTag'' ''accounts'' ds fc additionalFilters
           dimensionFilterStr aggregationFields)"

subsection \<open>Binding the time window\<close>

definition digitChar :: "nat \<Rightarrow> char" where
  "digitChar n =
     (let k = n mod 10
      in if k = 0 then CHR ''0'' else if k = 1 then CHR ''1'' else if k = 2 then CHR ''2''
         else if k = 3 then CHR ''3'' else if k = 4 then CHR ''4'' else if k = 5 then CHR ''5''
         else if k = 6 then CHR ''6'' else if k = 7 then CHR ''7'' else if k = 8 then CHR ''8''
         else CHR ''9'')"

text \<open>The last \<open>w\<close> decimal digits of \<open>n\<close>, zero-padded.\<close>

fun padDigits :: "nat \<Rightarrow> nat \<Rightarrow> string" where
  "padDigits 0 n = []"
| "padDigits (Suc w) n = padDigits w (n div 10) @ [digitChar n]"

definition isoYear :: "int \<Rightarrow> string" where
  "isoYear y =
     (if 0 \<le> y \<and> y \<le> 9999 then padDigits 4 (nat y)
      else (if y < 0 then ''-'' else ''+'') @ padDigits 6 (nat \<bar>y\<bar>))"

definition isoDate :: "JsDate \<Rightarrow> string" where
  "isoDate d = isoYear (fullYear d) @ ''-'' @ padDigits 2 (nat (month d + 1))
                 @ ''-'' @ padDigits 2 (nat (date d))"

definition isoTime :: "JsDate \<Rightarrow> string" where
  "isoTime d = padDigits 2 (nat (hours d)) @ '':'' @ padDigits 2 (nat (minutes d))
                 @ '':'' @ padDigits 2 (nat (seconds d)) @ ''.'' @ padDigits 3 (nat (milliseconds d))"

definition toISOString :: "JsDate \<Rightarrow> string" where
  "toISOString d = isoDate d @ ''T'' @ isoTime d @ ''Z''"

text \<open>\<open>s.split('T')[0]\<close>: the part of \<open>s\<close> before the first \<open>T\<close>.\<close>

definition beforeFirstT :: "string \<Rightarrow> string" where
  "beforeFirstT s = takeWhile (\<lambda>c. c \<noteq> CHR ''T'') s"

definition formatDateForQuery :: "JsDate \<Rightarrow> string \<Rightarrow> string" where
  "formatDateForQuery d ff =
     (if ff = ''date'' then beforeFirstT (toISOString d) else toISOString d)"


section \<open>Backend responses\<close>

text \<open>
  The payload is typed as the casts of \<open>extractValue\<close> declare it. At every level
  \<open>None\<close> stands for a key that is absent or holds \<open>null\<close>; JSON values of another
  kind than the cast names are not modelled. Objects keyed by a field name are
  association lists.
\<close>

record NestedConfidence =
  estimate_n :: "real option"
  lower_n :: "real option"
  upper_n :: "real option"
  sampleSize_n :: "real option"
  isValid_n :: "bool option"

record ConfidenceData =
  level_c :: "real option"
  count_c :: "NestedConfidence option"
  sum_c :: "(string \<times> NestedConfidence) list option"
  avg_c :: "(string \<times> NestedConfidence) list option"
  max_c :: "(string \<times> NestedConfidence) list option"

record GroupRow =
  count_i :: "real option"
  sum_i :: "(string \<times> real) list option"
  avg_i :: "(string \<times> real) list option"
  max_i :: "(string \<times> real) list option"
  confidence_i :: "ConfidenceData option"

type_synonym ScopeEntry = "(string \<times> GroupRow option list) list"

record Viewer =
  zones :: "ScopeEntry option list option"
  accounts :: "ScopeEntry option list option"

record Payload =
  viewer :: "Viewer option"

record GraphQLResponse =
  data_g :: "Payload option"
  errors_g :: "string list option"

datatype Exception = Exception string

datatype Variables =
  AccountVariables string string string
| ZoneVariables string string string

text \<open>
  The effects of the program: the requests it sends, the batches it starts with
  \<open>Promise.all\<close> (with the number of promises) and the pauses it takes with
  \<open>setTimeout\<close>. The queries of one batch run concurrently; the log lists them in the
  order of the batch.
\<close>

datatype Event = Query string Variables | PromiseAll nat | SetTimeout nat

text \<open>
  The world outside: \<open>execute\<close> is \<open>executeGraphQL\<close>, which either throws (transport
  failure, non-2xx status) or returns the parsed response, as a function of the token,
  the query text and the variables; \<open>elapsed\<close> is the difference of the two readings of
  \<open>Date.now()\<close> around the query of a product.
\<close>

record Env =
  execute :: "string \<Rightarrow> string \<Rightarrow> Variables \<Rightarrow> Exception + GraphQLResponse"
  elapsed :: "string \<Rightarrow> real"

section \<open>Result normalisation: \<open>extractValue\<close>\<close>

record ExtractedResult =
  value_e :: real
  confidence_e :: "ConfidenceInterval option"

record ConfidenceTotals =
  totalEstimate :: real
  totalLower :: real
  totalUpper :: real
  totalSampleSize :: real
  hasConfidence :: bool
  confidenceLevel :: real
  allValid :: bool

record ExtractTotals = ConfidenceTotals +
  totalValue :: real

definition orZero :: "real option \<Rightarrow> real" where
  "orZero v = (case v of Some x \<Rightarrow> x | None \<Rightarrow> 0)"

text \<open>
  \<^verbatim>\<open>
  case 'count': value = (item.count as number) ?? 0;
  case 'avg':   value = (item.avg as Record<string, number>)?.[field] ?? 0;
  case 'max':   value = (item.max as Record<string, number>)?.[field] ?? 0;
  default:      value = (item.sum as Record<string, number>)?.[field] ?? 0;
  \<close>
\<close>

fun itemValue :: "AggregationType \<Rightarrow> string \<Rightarrow> GroupRow \<Rightarrow> real" where
  "itemValue AggCount field item = orZero (count_i item)"
| "itemValue AggAvg field item = orZero (Option.bind (avg_i item) (\<lambda>m. map_of m field))"
| "itemValue AggMax field item = orZero (Option.bind (max_i item) (\<lambda>m. map_of m field))"
| "itemValue AggSum field item = orZero (Option.bind (sum_i item) (\<lambda>m. map_of m field))"

fun nestedConfidenceOf :: "AggregationType \<Rightarrow> string \<Rightarrow> ConfidenceData \<Rightarrow> NestedConfidence option" where
  "nestedConfidenceOf AggCount field cd = count_c cd"
| "nestedConfidenceOf AggAvg field cd = Option.bind (avg_c cd) (\<lambda>m. map_of m field)"
| "nestedConfidenceOf AggMax field cd = Option.bind (max_c cd) (\<lambda>m. map_of m field)"
| "nestedConfidenceOf AggSum field cd = Option.bind (sum_c cd) (\<lambda>m. map_of m field)"

text \<open>One pass of the body of \<open>for (const item of datasetResults)\<close>.\<close>

definition rowStep :: "AggregationType \<Rightarrow> string \<Rightarrow> GroupRow \<Rightarrow> ExtractTotals \<Rightarrow> ExtractTotals" where
  "rowStep agg field item t =
     (let t1 = t\<lparr>totalValue := totalValue t + itemValue agg field item\<rparr>
      in (case confidence_i item of
            None \<Rightarrow> t1
          | Some confidenceData \<Rightarrow>
              (let t2 = t1\<lparr>hasConfidence := True,
                          confidenceLevel :=
                            (case level_c confidenceData of Some l \<Rightarrow> l | None \<Rightarrow> CONFIDENCE_LEVEL)\<rparr>
               in (case nestedConfidenceOf agg field confidenceData of
                     None \<Rightarrow> t2
                   | Some nc \<Rightarrow>
                       t2\<lparr>totalEstimate := totalEstimate t2 + orZero (estimate_n nc),
                          totalLower := totalLower t2 + orZero (lower_n nc),
                          totalUpper := totalUpper t2 + orZero (upper_n nc),
                          totalSampleSize := totalSampleSize t2 + orZero (sampleSize_n nc),
                          allValid := (if isValid_n nc = Some True then allValid t2 else False)\<rparr>))))"

text \<open>The loop over the rows; reading a property of a \<open>null\<close> row throws.\<close>

fun rowsLoop ::
  "AggregationType \<Rightarrow> string \<Rightarrow> GroupRow option list \<Rightarrow> ExtractTotals \<Rightarrow> Exception + ExtractTotals" where
  "rowsLoop agg field [] t = Inr t"
| "rowsLoop agg field (None # items) t = Inl (Exception ''Cannot read properties of null'')"
| "rowsLoop agg field (Some item # items) t = rowsLoop agg field items (rowStep agg field item t)"

definition initialExtractTotals :: ExtractTotals where
  "initialExtractTotals =
     \<lparr>totalEstimate = 0, totalLower = 0, totalUpper = 0, totalSampleSize = 0,
      hasConfidence = False, confidenceLevel = CONFIDENCE_LEVEL, allValid = True,
      totalValue = 0\<rparr>"

text \<open>
  \<^verbatim>\<open>
  if (hasConfidence && totalEstimate > 0) {
    result.confidence = { estimate: totalEstimate, lower: totalLower, upper: totalUpper,
      sampleSize: totalSampleSize, isValid: allValid, level: confidenceLevel,
      confidencePercent: calculateConfidencePercent(totalEstimate, totalLower, totalUpper) };
  }
  \<close>
  The same block closes the loop over the rows and the loop over the zones.
\<close>

definition buildConfidence :: "'a ConfidenceTotals_scheme \<Rightarrow> ConfidenceInterval option" where
  "buildConfidence t =
     (if hasConfidence t \<and> totalEstimate t > 0
      then Some \<lparr>estimate = totalEstimate t, lower = totalLower t, upper = totalUpper t,
                 sampleSize = totalSampleSize t, isValid = allValid t, level = confidenceLevel t,
                 confidencePercent =
                   Some (calculateConfidencePercent (Fin (totalEstimate t)) (Fin (totalLower t))
                           (Fin (totalUpper t)))\<rparr>
      else None)"

definition noValue :: ExtractedResult where
  "noValue = \<lparr>value_e = 0, confidence_e = None\<rparr>"

text \<open>The body of the \<open>try\<close> block of \<open>extractValue\<close>; \<open>Inl\<close> is a thrown exception.\<close>

definition extractValue_try ::
  "Payload option \<Rightarrow> string \<Rightarrow> string \<Rightarrow> AggregationType \<Rightarrow> ProductScope
     \<Rightarrow> Exception + ExtractedResult" where
  "extractValue_try dat ds field agg sc =
     (case dat of
        None \<Rightarrow> Inl (Exception ''Cannot read properties of undefined (reading viewer)'')
      | Some d \<Rightarrow>
          (case viewer d of
             None \<Rightarrow> Inl (Exception ''Cannot read properties of undefined'')
           | Some v \<Rightarrow>
               (case (if sc = Zone then zones v else accounts v) of
                  None \<Rightarrow> Inr noValue
                | Some [] \<Rightarrow> Inr noValue
                | Some (firstScope # _) \<Rightarrow>
                    (case firstScope of
                       None \<Rightarrow> Inl (Exception ''Cannot read properties of null'')
                     | Some entry \<Rightarrow>
                         (case map_of entry ds of
                            None \<Rightarrow> Inr noValue
                          | Some [] \<Rightarrow> Inr noValue
                          | Some datasetResults \<Rightarrow>
                              (case rowsLoop agg field datasetResults initialExtractTotals of
                                 Inl e \<Rightarrow> Inl e
                               | Inr t \<Rightarrow>
                                   Inr \<lparr>value_e = totalValue t,
                                        confidence_e = buildConfidence t\<rparr>))))))"

text \<open>\<open>catch (error) { console.error(...); return { value: 0 }; }\<close>\<close>

definition extractValue ::
  "Payload option \<Rightarrow> string \<Rightarrow> string \<Rightarrow> AggregationType \<Rightarrow> ProductScope \<Rightarrow> ExtractedResult" where
  "extractValue dat ds field agg sc =
     (case extractValue_try dat ds field agg sc of
        Inl e \<Rightarrow> noValue
      | Inr r \<Rightarrow> r)"


section \<open>Querying one product: \<open>queryProductUsage\<close>\<close>

text \<open>\<open>product.aggregation || 'sum'\<close> and \<open>product.filterField || 'datetime'\<close>.\<close>

definition aggregationOf :: "ProductRuntime \<Rightarrow> AggregationType" where
  "aggregationOf product = (case aggregation product of Some a \<Rightarrow> a | None \<Rightarrow> AggSum)"

definition filterFieldOf :: "ProductRuntime \<Rightarrow> string" where
  "filterFieldOf product =
     (case filterField product of
        Some f \<Rightarrow> (if f = [] then ''datetime'' else f)
      | None \<Rightarrow> ''datetime'')"

text \<open>\<open>response.errors && response.errors.length > 0\<close>\<close>

definition hasErrors :: "GraphQLResponse \<Rightarrow> bool" where
  "hasErrors response = (case errors_g response of Some es \<Rightarrow> es \<noteq> [] | None \<Rightarrow> False)"

definition errorMessages :: "GraphQLResponse \<Rightarrow> string" where
  "errorMessages response = join '', '' (case errors_g response of Some es \<Rightarrow> es | None \<Rightarrow> [])"

definition initialResult :: "ProductRuntime \<Rightarrow> JsDate \<Rightarrow> JsDate \<Rightarrow> ProductUsageResult" where
  "initialResult product billingStart billingEnd =
     \<lparr>productId = id_p product,
      productName = name_p product,
      category = category_p product,
      currentUsage = 0,
      limit = limit_p product,
      unit_r = unit_p product,
      percentUsed = 0,
      billingPeriodStart = toISOString billingStart,
      billingPeriodEnd = toISOString billingEnd,
      scope = scope_p product,
      error = None,
      queryDurationMs = None,
      note_r = note_p product,
      enabled = None,
      unlimited = unlimited_p product,
      confidence = None\<rparr>"

definition initialConfidenceTotals :: ConfidenceTotals where
  "initialConfidenceTotals =
     \<lparr>totalEstimate = 0, totalLower = 0, totalUpper = 0, totalSampleSize = 0,
      hasConfidence = False, confidenceLevel = CONFIDENCE_LEVEL, allValid = True\<rparr>"

text \<open>
  \<^verbatim>\<open>
  if (extracted.confidence) {
    hasConfidence = true;
    totalEstimate += extracted.confidence.estimate;
    totalLower += extracted.confidence.lower;
    totalUpper += extracted.confidence.upper;
    totalSampleSize += extracted.confidence.sampleSize;
    confidenceLevel = extracted.confidence.level;
    if (!extracted.confidence.isValid) { allValid = false; }
  }
  \<close>
\<close>

definition addZoneConfidence :: "ConfidenceInterval option \<Rightarrow> ConfidenceTotals \<Rightarrow> ConfidenceTotals" where
  "addZoneConfidence c t =
     (case c of
        None \<Rightarrow> t
      | Some ci \<Rightarrow>
          t\<lparr>hasConfidence := True,
            totalEstimate := totalEstimate t + estimate ci,
            totalLower := totalLower t + lower ci,
            totalUpper := totalUpper t + upper ci,
            totalSampleSize := totalSampleSize t + sampleSize ci,
            confidenceLevel := level ci,
            allValid := (if isValid ci then allValid t else False)\<rparr>)"

text \<open>
  The loop \<open>for (const zoneTag of zoneTags)\<close>. Its state is the result record (of
  which it updates \<open>currentUsage\<close>), the confidence totals and the log. The first
  component of the value is the exception that left the loop, if any.
\<close>

fun zoneLoop ::
  "Env \<Rightarrow> string \<Rightarrow> ProductRuntime \<Rightarrow> QueryFilterOptions option \<Rightarrow> string \<Rightarrow> string
     \<Rightarrow> string list \<Rightarrow> ProductUsageResult \<times> ConfidenceTotals \<times> Event list
     \<Rightarrow> Exception option \<times> ProductUsageResult \<times> ConfidenceTotals \<times> Event list" where
  "zoneLoop env apiToken product filters start end [] st = (None, st)"
| "zoneLoop env apiToken product filters start end (zoneTag # rest) (result, totals, trace) =
     (let query = buildZoneQuery (dataset product) (field_p product) (aggregationOf product)
                    (filterFieldOf product) filters (dimensionFilters product);
          variables = ZoneVariables zoneTag start end;
          trace1 = trace @ [Query query variables]
      in (case execute env apiToken query variables of
            Inl ex \<Rightarrow> (Some ex, result, totals, trace1)
          | Inr response \<Rightarrow>
              (if hasErrors response
               then zoneLoop env apiToken product filters start end rest (result, totals, trace1)
               else
                 (let extracted = extractValue (data_g response) (dataset product) (field_p product)
                                    (aggregationOf product) Zone
                  in zoneLoop env apiToken product filters start end rest
                       (result\<lparr>currentUsage := currentUsage result + value_e extracted\<rparr>,
                        addZoneConfidence (confidence_e extracted) totals,
                        trace1)))))"

text \<open>
  \<^verbatim>\<open>
  if (product.transform && result.currentUsage > 0) {
    result.currentUsage = product.transform(result.currentUsage);
  }
  result.percentUsed = product.limit > 0 ? (result.currentUsage / product.limit) * 100 : 0;
  \<close>
\<close>

definition applyTransform :: "ProductRuntime \<Rightarrow> ProductUsageResult \<Rightarrow> ProductUsageResult" where
  "applyTransform product result =
     (case transform product of
        Some f \<Rightarrow> (if currentUsage result > 0
                   then result\<lparr>currentUsage := f (currentUsage result)\<rparr> else result)
      | None \<Rightarrow> result)"

definition calculatePercentage :: "ProductRuntime \<Rightarrow> ProductUsageResult \<Rightarrow> ProductUsageResult" where
  "calculatePercentage product result =
     result\<lparr>percentUsed :=
       (if limit_p product > 0 then (currentUsage result / limit_p product) * 100 else 0)\<rparr>"

text \<open>
  The body of the \<open>try\<close> block. It gives the exception that left it, if any, the
  result record as it stands at that moment, and the log.
\<close>

definition queryProductUsage_try ::
  "Env \<Rightarrow> string \<Rightarrow> string \<Rightarrow> ProductRuntime \<Rightarrow> JsDate \<Rightarrow> JsDate \<Rightarrow> QueryFilterOptions option
     \<Rightarrow> ProductUsageResult \<Rightarrow> Exception option \<times> ProductUsageResult \<times> Event list" where
  "queryProductUsage_try env apiToken accountId product billingStart billingEnd filters result =
     (let ff = filterFieldOf product;
          agg = aggregationOf product;
          start = formatDateForQuery billingStart ff;
          end = formatDateForQuery billingEnd ff
      in if scope_p product = Account then
           (let query = buildAccountQuery (dataset product) (field_p product) agg ff filters
                          (dimensionFilters product);
                variables = AccountVariables accountId start end
            in (case execute env apiToken query variables of
                  Inl ex \<Rightarrow> (Some ex, result, [Query query variables])
                | Inr response \<Rightarrow>
                    (let result1 =
                           (if hasErrors response
                            then result\<lparr>error := Some (errorMessages response)\<rparr>
                            else
                              (let extracted = extractValue (data_g response) (dataset product)
                                                 (field_p product) agg Account
                               in result\<lparr>currentUsage := value_e extracted,
                                         confidence := confidence_e extracted\<rparr>))
                     in (None, calculatePercentage product (applyTransform product result1),
                         [Query query variables]))))
         else
           (let zoneTags' = (case zoneTags product of Some zs \<Rightarrow> zs | None \<Rightarrow> [])
            in if zoneTags' = [] then
                 (None,
                  calculatePercentage product
                    (applyTransform product (result\<lparr>error := Some ''No zone tags configured''\<rparr>)),
                  [])
               else
                 (case zoneLoop env apiToken product filters start end zoneTags'
                         (result, initialConfidenceTotals, []) of
                    (Some ex, result1, totals, trace) \<Rightarrow> (Some ex, result1, trace)
                  | (None, result1, totals, trace) \<Rightarrow>
                      (None,
                       calculatePercentage product
                         (applyTransform product
                            (case buildConfidence totals of
                               Some c \<Rightarrow> result1\<lparr>confidence := Some c\<rparr>
                             | None \<Rightarrow> result1)),
                       trace))))"

text \<open>
  \<^verbatim>\<open>
  } catch (error) {
    result.error = error instanceof Error ? error.message : String(error);
  }
  result.queryDurationMs = Date.now() - startTime;
  return result;
  \<close>
\<close>

definition queryProductUsage ::
  "Env \<Rightarrow> string \<Rightarrow> string \<Rightarrow> ProductRuntime \<Rightarrow> JsDate \<Rightarrow> JsDate \<Rightarrow> QueryFilterOptions option
     \<Rightarrow> ProductUsageResult \<times> Event list" where
  "queryProductUsage env apiToken accountId product billingStart billingEnd filters =
     (case queryProductUsage_try env apiToken accountId product billingStart billingEnd filters
             (initialResult product billingStart billingEnd) of
        (thrown, result, trace) \<Rightarrow>
          ((case thrown of
              Some (Exception message) \<Rightarrow> result\<lparr>error := Some message\<rparr>
            | None \<Rightarrow> result)
           \<lparr>queryDurationMs := Some (elapsed env (id_p product))\<rparr>,
           trace))"

section \<open>The batched runner\<close>










section \<open>The categorizer\<close>

text \<open>
  \<open>Array.prototype.sort\<close> with a comparison function is stable. For a comparison
  function that is a consistent ordering the sorted array is determined; it is
  computed here by insertion, an element going before the first one that it does not
  have to follow.
\<close>

fun insertSorted :: "('a \<Rightarrow> 'a \<Rightarrow> real) \<Rightarrow> 'a \<Rightarrow> 'a list \<Rightarrow> 'a list" where
  "insertSorted cmp x [] = [x]"
| "insertSorted cmp x (y # ys) = (if cmp x y \<le> 0 then x # y # ys else y # insertSorted cmp x ys)"

definition arraySort :: "('a \<Rightarrow> 'a \<Rightarrow> real) \<Rightarrow> 'a list \<Rightarrow> 'a list" where
  "arraySort cmp xs = foldr (insertSorted cmp) xs []"

text \<open>The truth value of \<open>result.error\<close>: the empty string is falsy.\<close>

definition errorPresent :: "ProductUsageResult \<Rightarrow> bool" where
  "errorPresent result = (case error result of Some e \<Rightarrow> e \<noteq> [] | None \<Rightarrow> False)"

fun categorizeLoop :: "ProductUsageResult list \<Rightarrow> real \<Rightarrow> real \<Rightarrow> UsageSummary \<Rightarrow> UsageSummary" where
  "categorizeLoop [] alertThreshold warningThreshold summary = summary"
| "categorizeLoop (result # rest) alertThreshold warningThreshold summary =
     categorizeLoop rest alertThreshold warningThreshold
       (if errorPresent result then summary\<lparr>errors := errors summary @ [result]\<rparr>
        else if percentUsed result \<ge> alertThreshold then summary\<lparr>alerts := alerts summary @ [result]\<rparr>
        else if percentUsed result \<ge> warningThreshold then summary\<lparr>warnings := warnings summary @ [result]\<rparr>
        else summary\<lparr>healthy := healthy summary @ [result]\<rparr>)"

text \<open>\<open>(a, b) => b.percentUsed - a.percentUsed\<close>\<close>

definition byPercentUsedDescending :: "ProductUsageResult \<Rightarrow> ProductUsageResult \<Rightarrow> real" where
  "byPercentUsedDescending a b = percentUsed b - percentUsed a"

text \<open>
  \<open>categorizeUsage\<close> stamps the summary with \<open>new Date().toISOString()\<close>; the clock
  reading is the parameter \<open>now\<close>. \<open>r.queryDurationMs || 0\<close> is the duration or 0.
\<close>

definition categorizeUsage :: "JsDate \<Rightarrow> ProductUsageResult list \<Rightarrow> real \<Rightarrow> real \<Rightarrow> UsageSummary" where
  "categorizeUsage now results alertThreshold warningThreshold =
     (let summary = \<lparr>alerts = [], warnings = [], healthy = [], errors = [],
                     timestamp = toISOString now,
                     totalQueryDurationMs =
                       foldl (\<lambda>acc r. acc + orZero (queryDurationMs r)) 0 results\<rparr>;
          summary = categorizeLoop results alertThreshold warningThreshold summary
      in summary\<lparr>alerts := arraySort byPercentUsedDescending (alerts summary),
                 warnings := arraySort byPercentUsedDescending (warnings summary)\<rparr>)"

section \<open>Notions used to state the properties\<close>

text \<open>Local midnight of a calendar day, and the same day and time one month on.\<close>

definition midnight :: "int \<Rightarrow> int \<Rightarrow> int \<Rightarrow> JsDate" where
  "midnight y m d =
     \<lparr>fullYear = y, month = m, date = d, hours = 0, minutes = 0, seconds = 0, milliseconds = 0\<rparr>"

definition oneMonthLater :: "JsDate \<Rightarrow> JsDate" where
  "oneMonthLater d =
     (if month d = 11 then d\<lparr>fullYear := fullYear d + 1, month := 0\<rparr>
      else d\<lparr>month := month d + 1\<rparr>)"

text \<open>
  The confidence sample that a row of a result array contributes: none if the row
  carries no confidence data, the nested record for the aggregation (with absent
  numbers read as 0 and an absent validity as false) otherwise. A row with confidence
  data but no nested record for the aggregation contributes zeros and no invalidity.
\<close>

definition levelOf :: "ConfidenceData \<Rightarrow> real" where
  "levelOf cd = (case level_c cd of Some l \<Rightarrow> l | None \<Rightarrow> CONFIDENCE_LEVEL)"

definition rowSample :: "AggregationType \<Rightarrow> string \<Rightarrow> GroupRow \<Rightarrow> ConfidenceInterval option" where
  "rowSample agg field item =
     (case confidence_i item of
        None \<Rightarrow> None
      | Some cd \<Rightarrow>
          (case nestedConfidenceOf agg field cd of
             None \<Rightarrow>
               Some \<lparr>estimate = 0, lower = 0, upper = 0, sampleSize = 0, isValid = True,
                     level = levelOf cd, confidencePercent = None\<rparr>
           | Some nc \<Rightarrow>
               Some \<lparr>estimate = orZero (estimate_n nc), lower = orZero (lower_n nc),
                     upper = orZero (upper_n nc), sampleSize = orZero (sampleSize_n nc),
                     isValid = (isValid_n nc = Some True),
                     level = levelOf cd, confidencePercent = None\<rparr>))"

text \<open>
  The combination of per-partition samples in the words of the specification, with
  the guard of the code on the summed estimate: the partitions that produced a sample
  are summed field by field, the validities are conjoined and the level is that of the
  last such partition.
\<close>

definition presentSamples :: "ConfidenceInterval option list \<Rightarrow> ConfidenceInterval list" where
  "presentSamples samples = concat (map (\<lambda>s. case s of Some c \<Rightarrow> [c] | None \<Rightarrow> []) samples)"

definition combineSamples :: "ConfidenceInterval option list \<Rightarrow> ConfidenceInterval option" where
  "combineSamples samples =
     (let present = presentSamples samples
      in if present = [] \<or> \<not> 0 < sum_list (map estimate present) then None
         else Some \<lparr>estimate = sum_list (map estimate present),
                    lower = sum_list (map lower present),
                    upper = sum_list (map upper present),
                    sampleSize = sum_list (map sampleSize present),
                    isValid = list_all isValid present,
                    level = level (last present),
                    confidencePercent =
                      Some (calculateConfidencePercent (Fin (sum_list (map estimate present)))
                              (Fin (sum_list (map lower present)))
                              (Fin (sum_list (map upper present))))\<rparr>)"

text \<open>
  What the backend answers for one zone of a zone-scoped product, the value and the
  sample that the zone contributes (nothing if the response carries errors), and the
  request that is logged for it.
\<close>

definition zoneQuery :: "ProductRuntime \<Rightarrow> QueryFilterOptions option \<Rightarrow> string" where
  "zoneQuery product filters =
     buildZoneQuery (dataset product) (field_p product) (aggregationOf product)
       (filterFieldOf product) filters (dimensionFilters product)"

definition zoneOutcome ::
  "Env \<Rightarrow> string \<Rightarrow> ProductRuntime \<Rightarrow> QueryFilterOptions option \<Rightarrow> string \<Rightarrow> string \<Rightarrow> string
     \<Rightarrow> Exception + GraphQLResponse" where
  "zoneOutcome env apiToken product filters start end z =
     execute env apiToken (zoneQuery product filters) (ZoneVariables z start end)"

definition zoneExtracted ::
  "Env \<Rightarrow> string \<Rightarrow> ProductRuntime \<Rightarrow> QueryFilterOptions option \<Rightarrow> string \<Rightarrow> string \<Rightarrow> string
     \<Rightarrow> ExtractedResult option" where
  "zoneExtracted env apiToken product filters start end z =
     (case zoneOutcome env apiToken product filters start end z of
        Inl ex \<Rightarrow> None
      | Inr response \<Rightarrow>
          (if hasErrors response then None
           else Some (extractValue (data_g response) (dataset product) (field_p product)
                        (aggregationOf product) Zone)))"

definition zoneValue ::
  "Env \<Rightarrow> string \<Rightarrow> ProductRuntime \<Rightarrow> QueryFilterOptions option \<Rightarrow> string \<Rightarrow> string \<Rightarrow> string
     \<Rightarrow> real" where
  "zoneValue env apiToken product filters start end z =
     (case zoneExtracted env apiToken product filters start end z of
        Some x \<Rightarrow> value_e x | None \<Rightarrow> 0)"

definition zoneSample ::
  "Env \<Rightarrow> string \<Rightarrow> ProductRuntime \<Rightarrow> QueryFilterOptions option \<Rightarrow> string \<Rightarrow> string \<Rightarrow> string
     \<Rightarrow> ConfidenceInterval option" where
  "zoneSample env apiToken product filters start end z =
     Option.bind (zoneExtracted env apiToken product filters start end z) confidence_e"

definition responds :: "Exception + GraphQLResponse \<Rightarrow> bool" where
  "responds outcome = (case outcome of Inr response \<Rightarrow> True | Inl ex \<Rightarrow> False)"

text \<open>The usage after the optional unit transform, as a function of the raw value.\<close>

definition transformedUsage :: "ProductRuntime \<Rightarrow> real \<Rightarrow> real" where
  "transformedUsage product v =
     (case transform product of Some f \<Rightarrow> (if v > 0 then f v else v) | None \<Rightarrow> v)"

text \<open>The same for the single query of an account-scoped product.\<close>

definition zoneRequest ::
  "ProductRuntime \<Rightarrow> QueryFilterOptions option \<Rightarrow> string \<Rightarrow> string \<Rightarrow> string \<Rightarrow> Event" where
  "zoneRequest product filters start end z =
     Query (zoneQuery product filters) (ZoneVariables z start end)"

definition accountQuery :: "ProductRuntime \<Rightarrow> QueryFilterOptions option \<Rightarrow> string" where
  "accountQuery product filters =
     buildAccountQuery (dataset product) (field_p product) (aggregationOf product)
       (filterFieldOf product) filters (dimensionFilters product)"

definition accountOutcome ::
  "Env \<Rightarrow> string \<Rightarrow> string \<Rightarrow> ProductRuntime \<Rightarrow> QueryFilterOptions option \<Rightarrow> string \<Rightarrow> string
     \<Rightarrow> Exception + GraphQLResponse" where
  "accountOutcome env apiToken accountId product filters start end =
     execute env apiToken (accountQuery product filters) (AccountVariables accountId start end)"

definition accountRequest ::
  "string \<Rightarrow> ProductRuntime \<Rightarrow> QueryFilterOptions option \<Rightarrow> string \<Rightarrow> string \<Rightarrow> Event" where
  "accountRequest accountId product filters start end =
     Query (accountQuery product filters) (AccountVariables accountId start end)"

text \<open>The bound of the time window as the product's time filter wants it.\<close>

definition boundDate :: "ProductRuntime \<Rightarrow> JsDate \<Rightarrow> string" where
  "boundDate product d = formatDateForQuery d (filterFieldOf product)"

text \<open>The loop variables that a list of samples, taken in order, leaves behind.\<close>

definition totalsOf :: "ConfidenceInterval option list \<Rightarrow> ConfidenceTotals" where
  "totalsOf samples =
     (let present = presentSamples samples
      in \<lparr>totalEstimate = sum_list (map estimate present),
          totalLower = sum_list (map lower present),
          totalUpper = sum_list (map upper present),
          totalSampleSize = sum_list (map sampleSize present),
          hasConfidence = (present \<noteq> []),
          confidenceLevel = (if present = [] then CONFIDENCE_LEVEL else level (last present)),
          allValid = list_all isValid present\<rparr>)"

text \<open>
  Readings of the log: the sizes of the batches in the order in which they were
  started, and the requests that were sent. \<open>batchSizes n\<close> are the sizes of the
  consecutive batches of \<open>n\<close> products.
\<close>

definition promiseAllSizes :: "Event list \<Rightarrow> nat list" where
  "promiseAllSizes trace =
     concat (map (\<lambda>ev. case ev of PromiseAll n \<Rightarrow> [n] | Query q v \<Rightarrow> [] | SetTimeout ms \<Rightarrow> []) trace)"

fun isQuery :: "Event \<Rightarrow> bool" where
  "isQuery (Query q v) = True"
| "isQuery (PromiseAll n) = False"
| "isQuery (SetTimeout ms) = False"

definition queriesOf :: "Event list \<Rightarrow> Event list" where
  "queriesOf trace = filter isQuery trace"


text \<open>A date with the minutes, seconds and milliseconds cleared.\<close>

definition truncatedToHour :: "JsDate \<Rightarrow> JsDate" where
  "truncatedToHour d = d\<lparr>minutes := 0, seconds := 0, milliseconds := 0\<rparr>"

text \<open>
  The number of positions of a text at which a pattern starts.
\<close>

fun startsWith :: "string \<Rightarrow> string \<Rightarrow> bool" where
  "startsWith [] s = True"
| "startsWith (p # ps) [] = False"
| "startsWith (p # ps) (c # cs) = (p = c \<and> startsWith ps cs)"

fun occurrences :: "string \<Rightarrow> string \<Rightarrow> nat" where
  "occurrences pat [] = 0"
| "occurrences pat (c # cs) = (if startsWith pat (c # cs) then 1 else 0) + occurrences pat cs"

section \<open>Example inputs\<close>

text \<open>
  Three entries of the registry, a backend and a clock reading, on which the
  properties below are evaluated.
\<close>

definition zaraz_events :: ProductDefinition where
  "zaraz_events =
     \<lparr>id_p = ''zaraz_events'', name_p = ''Zaraz Events'', category_p = Platform,
      description = ''Events processed by Zaraz tag manager'',
      defaultLimit = 1000000, unit_p = ''events'', dataset = ''zarazTrackAdaptiveGroups'',
      field_p = [], scope_p = Zone, aggregation = Some AggCount,
      filterField = Some ''datetimeHour'', enabledByDefault = True,
      docsUrl = Some ''https://developers.cloudflare.com/zaraz/'', transform = None,
      unlimited_p = None, note_p = None, dimensionFilters = None\<rparr>"

definition workers_cpu_time :: ProductDefinition where
  "workers_cpu_time =
     \<lparr>id_p = ''workers_cpu_time'', name_p = ''Workers CPU Time'', category_p = Compute,
      description = ''Total CPU time consumed by Workers'',
      defaultLimit = 30000000, unit_p = ''ms'', dataset = ''workersInvocationsAdaptive'',
      field_p = ''cpuTimeUs'', scope_p = Account, aggregation = Some AggSum,
      filterField = None, enabledByDefault = True,
      docsUrl = Some ''https://developers.cloudflare.com/workers/platform/limits/'',
      transform = Some (\<lambda>us. us / 1000),
      unlimited_p = None, note_p = None, dimensionFilters = None\<rparr>"

definition tunnel_requests :: ProductDefinition where
  "tunnel_requests =
     \<lparr>id_p = ''tunnel_requests'', name_p = ''Cloudflare Tunnel Requests'',
      category_p = Connectivity, description = ''Requests through Cloudflare Tunnels'',
      defaultLimit = 0, unit_p = ''requests'',
      dataset = ''cloudflareTunnelsAnalyticsAdaptiveGroups'',
      field_p = [], scope_p = Account, aggregation = Some AggCount,
      filterField = None, enabledByDefault = False,
      docsUrl = None, transform = None,
      unlimited_p = Some True, note_p = None, dimensionFilters = None\<rparr>"

text \<open>A row with a count and the confidence data of that count.\<close>

definition countRow :: "real \<Rightarrow> real \<Rightarrow> real \<Rightarrow> GroupRow" where
  "countRow n lo up =
     \<lparr>count_i = Some n, sum_i = None, avg_i = None, max_i = None,
      confidence_i =
        Some \<lparr>level_c = Some (95 / 100),
              count_c = Some \<lparr>estimate_n = Some n, lower_n = Some lo, upper_n = Some up,
                              sampleSize_n = Some 10, isValid_n = Some True\<rparr>,
              sum_c = None, avg_c = None, max_c = None\<rparr>\<rparr>"

definition cpuRow :: "real \<Rightarrow> GroupRow" where
  "cpuRow us =
     \<lparr>count_i = None, sum_i = Some [(''cpuTimeUs'', us)], avg_i = None, max_i = None,
      confidence_i = None\<rparr>"

definition zoneResponse :: "string \<Rightarrow> GroupRow option list \<Rightarrow> GraphQLResponse" where
  "zoneResponse ds rows =
     \<lparr>data_g = Some \<lparr>viewer = Some \<lparr>zones = Some [Some [(ds, rows)]], accounts = None\<rparr>\<rparr>,
      errors_g = None\<rparr>"

definition accountResponse :: "string \<Rightarrow> GroupRow option list \<Rightarrow> GraphQLResponse" where
  "accountResponse ds rows =
     \<lparr>data_g = Some \<lparr>viewer = Some \<lparr>zones = None, accounts = Some [Some [(ds, rows)]]\<rparr>\<rparr>,
      errors_g = None\<rparr>"

text \<open>
  The backend of the examples: zone \<open>Z1\<close> has 100 events and zone \<open>Z4\<close> 200, the
  query of zone \<open>Z3\<close> is answered with a GraphQL error, the query of any other zone
  fails in transport; the account has two rows of CPU time, 30000 and 20000
  microseconds, and 50 tunnel requests.
\<close>

definition exampleEnv :: Env where
  "exampleEnv =
     \<lparr>execute = (\<lambda>apiToken query variables.
        (case variables of
           ZoneVariables z start end \<Rightarrow>
             (if z = ''Z1'' then Inr (zoneResponse ''zarazTrackAdaptiveGroups'' [Some (countRow 100 90 110)])
              else if z = ''Z4'' then Inr (zoneResponse ''zarazTrackAdaptiveGroups'' [Some (countRow 200 190 210)])
              else if z = ''Z3'' then Inr \<lparr>data_g = None, errors_g = Some [''unknown field'']\<rparr>
              else Inl (Exception ''GraphQL request failed: 500 Internal Server Error''))
         | AccountVariables a start end \<Rightarrow>
             Inr \<lparr>data_g = Some \<lparr>viewer = Some \<lparr>zones = None,
                     accounts = Some [Some
                       [(''workersInvocationsAdaptive'', [Some (cpuRow 30000), Some (cpuRow 20000)]),
                        (''cloudflareTunnelsAnalyticsAdaptiveGroups'',
                         [Some \<lparr>count_i = Some 50, sum_i = None, avg_i = None, max_i = None,
                                 confidence_i = None\<rparr>])]]\<rparr>\<rparr>,
                  errors_g = None\<rparr>)),
      elapsed = (\<lambda>productId. 12)\<rparr>"

definition exampleNow :: JsDate where
  "exampleNow =
     \<lparr>fullYear = 2024, month = 2, date = 15, hours = 10, minutes = 20, seconds = 30,
      milliseconds = 456\<rparr>"

definition exampleStart :: JsDate where "exampleStart = midnight 2024 2 1"

definition exampleEnd :: JsDate where "exampleEnd = midnight 2024 3 1"

text \<open>The Zaraz product with a limit of 1000 events on the given zones.\<close>

definition zarazOn :: "string list \<Rightarrow> ProductRuntime" where
  "zarazOn zs =
     mergeProductConfig zaraz_events
       (Some \<lparr>limit_c = Some 1000, enabled_c = None, zoneTags_c = None\<rparr>) (Some zs)"

text \<open>The tunnel product, which is unlimited, enabled with a limit of 100 requests.\<close>

definition tunnelWithLimit :: ProductRuntime where
  "tunnelWithLimit =
     mergeProductConfig tunnel_requests
       (Some \<lparr>limit_c = Some 100, enabled_c = Some True, zoneTags_c = None\<rparr>) None"

text \<open>The payload that the example backend returns for an account query.\<close>

definition exampleAccountPayload :: Payload where
  "exampleAccountPayload = \<lparr>viewer = Some \<lparr>zones = None,
                     accounts = Some [Some
                       [(''workersInvocationsAdaptive'', [Some (cpuRow 30000), Some (cpuRow 20000)]),
                        (''cloudflareTunnelsAnalyticsAdaptiveGroups'',
                         [Some \<lparr>count_i = Some 50, sum_i = None, avg_i = None, max_i = None,
                                 confidence_i = None\<rparr>])]]\<rparr>\<rparr>"


text \<open>The Workers CPU time product as the default configuration has it.\<close>

definition workersCpuTime :: ProductRuntime where
  "workersCpuTime = mergeProductConfig workers_cpu_time None None"


text \<open>
  A payload for R2 storage whose rows carry every aggregate; the second row has no
  count, no sum, and an average of another field.
\<close>

definition exampleStorageRows :: "GroupRow list" where
  "exampleStorageRows =
     [\<lparr>count_i = Some 2, sum_i = Some [(''payloadSize'', 10)], avg_i = Some [(''payloadSize'', 5)],
       max_i = Some [(''payloadSize'', 7)], confidence_i = None\<rparr>,
      \<lparr>count_i = None, sum_i = None, avg_i = Some [(''objectCount'', 1)],
       max_i = Some [(''payloadSize'', 4)], confidence_i = None\<rparr>]"

definition exampleStoragePayload :: Payload where
  "exampleStoragePayload = \<lparr>viewer = Some \<lparr>zones = None,
     accounts = Some [Some [(''r2StorageAdaptiveGroups'', map Some exampleStorageRows)]]\<rparr>\<rparr>"

section \<open>Verified properties\<close>

subsection \<open>Evaluating date strings\<close>

lemma padDigits_numeral:
  "padDigits (numeral k) n = padDigits (pred_numeral k) (n div 10) @ [digitChar n]"
  by (subst numeral_eq_Suc) (rule padDigits.simps(2))

lemmas iso_eval =
  toISOString_def isoDate_def isoTime_def isoYear_def padDigits_numeral digitChar_def
  midnight_def oneMonthLater_def


subsection \<open>Confidence score\<close>

lemma confidencePercent_finite:
  "e \<noteq> 0 \<Longrightarrow>
     calculateConfidencePercent (Fin e) (Fin l) (Fin u)
       = Fin (max 0 (min 99 (100 - (u - l) / e * 100 / 2)))"
  by (simp add: calculateConfidencePercent_def js_sub_def)

lemma clamp_0_99_cases:
  "js_max (Fin 0) (js_min (Fin 99) x) = NaN
     \<or> (\<exists>p. js_max (Fin 0) (js_min (Fin 99) x) = Fin p \<and> 0 \<le> p \<and> p \<le> 99)"
  by (cases x) auto

lemma clamp_0_99_number:
  "x \<noteq> NaN \<Longrightarrow> \<exists>p. js_max (Fin 0) (js_min (Fin 99) x) = Fin p \<and> 0 \<le> p \<and> p \<le> 99"
  by (cases x) auto

lemma js_affine_number:
  "e \<noteq> 0 \<Longrightarrow> r \<noteq> NaN \<Longrightarrow>
     js_sub (Fin 100) (js_div (js_mul (js_div r (Fin e)) (Fin 100)) (Fin 2)) \<noteq> NaN"
  by (cases r) (auto simp: js_sub_def)

text \<open>
  Claim C8. For a finite estimate other than 0 and finite bounds the score is
  \<open>100 - (upper - lower) / estimate * 100 / 2\<close> clamped to the interval from 0 to 99.
  For a finite estimate above 0 it lies between 0 and 99, for all bounds whose difference
  \<open>upper - lower\<close> is a number (as it is for finite bounds). It is exactly 99 when the
  estimate is 0 or is not finite, whatever the bounds. The value 100 is never produced,
  whatever the three arguments.
\<close>

theorem calculateConfidencePercent_range:
  "(e \<noteq> 0 \<longrightarrow>
      calculateConfidencePercent (Fin e) (Fin l) (Fin u)
        = Fin (max 0 (min 99 (100 - (u - l) / e * 100 / 2))))
   \<and> (0 < e \<and> js_sub up lo \<noteq> NaN \<longrightarrow>
        (\<exists>p. calculateConfidencePercent (Fin e) lo up = Fin p \<and> 0 \<le> p \<and> p \<le> 99))
   \<and> (est = Fin 0 \<or> \<not> isFinite est \<longrightarrow> calculateConfidencePercent est lo up = Fin 99)
   \<and> calculateConfidencePercent est lo up \<noteq> Fin 100"
proof (intro conjI impI)
  assume "e \<noteq> 0"
  then show "calculateConfidencePercent (Fin e) (Fin l) (Fin u)
               = Fin (max 0 (min 99 (100 - (u - l) / e * 100 / 2)))"
    by (rule confidencePercent_finite)
next
  assume a: "0 < e \<and> js_sub up lo \<noteq> NaN"
  then have "js_sub (Fin 100) (js_div (js_mul (js_div (js_sub up lo) (Fin e)) (Fin 100)) (Fin 2)) \<noteq> NaN"
    by (intro js_affine_number) simp_all
  from clamp_0_99_number[OF this] a
  show "\<exists>p. calculateConfidencePercent (Fin e) lo up = Fin p \<and> 0 \<le> p \<and> p \<le> 99"
    by (simp add: calculateConfidencePercent_def Let_def)
next
  assume "est = Fin 0 \<or> \<not> isFinite est"
  then show "calculateConfidencePercent est lo up = Fin 99"
    by (auto simp: calculateConfidencePercent_def)
next
  show "calculateConfidencePercent est lo up \<noteq> Fin 100"
    using clamp_0_99_cases
      [of "js_sub (Fin 100) (js_div (js_mul (js_div (js_sub up lo) est) (Fin 100)) (Fin 2))"]
    by (auto simp: calculateConfidencePercent_def Let_def)
qed

theorem calculateConfidencePercent_range_witness:
  "(200::real) \<noteq> 0 \<and> 0 < (200::real) \<and> js_sub (Fin 210) (Fin 190) \<noteq> NaN \<and> \<not> isFinite PInf
   \<and> calculateConfidencePercent (Fin 200) (Fin 190) (Fin 210) = Fin 95
   \<and> calculateConfidencePercent PInf (Fin 190) (Fin 210) = Fin 99
   \<and> calculateConfidencePercent PInf (Fin 190) (Fin 210) \<noteq> Fin 100"
  using calculateConfidencePercent_range
          [where e = 200 and l = 190 and u = 210 and up = "Fin 210" and lo = "Fin 190" and est = PInf]
  by (simp add: js_sub_def)

subsection \<open>Billing period\<close>

lemma daysInMonth_ge_28: "28 \<le> daysInMonth y m"
  by (simp add: daysInMonth_def)

lemma normaliseDay_within_month:
  "1 \<le> d \<Longrightarrow> d \<le> 28 \<Longrightarrow> normaliseDay y m d = (y, m, d)"
  using daysInMonth_ge_28[of y m] by simp

lemma newDate_this_month:
  assumes "1 \<le> d" "d \<le> 28" "0 \<le> m" "m \<le> 11" "100 \<le> y"
  shows "newDate y m d = midnight y m d"
  using assms
  by (simp add: newDate_def MakeDay_def normaliseDay_within_month midnight_def
           del: normaliseDay.simps)

lemma newDate_previous_month:
  assumes "1 \<le> d" "d \<le> 28" "0 \<le> m" "m \<le> 11" "100 \<le> y"
  shows "newDate y (m - 1) d = (if m = 0 then midnight (y - 1) 11 d else midnight y (m - 1) d)"
proof (cases "m = 0")
  case True
  have "(-1::int) div 12 = -1" "(-1::int) mod 12 = 11" by simp_all
  with True assms show ?thesis
    by (simp add: newDate_def MakeDay_def normaliseDay_within_month midnight_def
             del: normaliseDay.simps)
next
  case False
  with assms have "(m - 1) div 12 = 0" "(m - 1) mod 12 = m - 1" by simp_all
  with False assms show ?thesis
    by (simp add: newDate_def MakeDay_def normaliseDay_within_month midnight_def
             del: normaliseDay.simps)
qed

lemma setMonth_following:
  assumes "1 \<le> d" "d \<le> 28" "0 \<le> m" "m \<le> 11"
  shows "setMonth (midnight y m d) (getMonth (midnight y m d) + 1) = oneMonthLater (midnight y m d)"
proof (cases "m = 11")
  case True
  with assms show ?thesis
    by (simp add: setMonth_def getMonth_def MakeDay_def normaliseDay_within_month midnight_def
                  oneMonthLater_def del: normaliseDay.simps)
next
  case False
  with assms have "(m + 1) div 12 = 0" "(m + 1) mod 12 = m + 1" by simp_all
  with False assms show ?thesis
    by (simp add: setMonth_def getMonth_def MakeDay_def normaliseDay_within_month midnight_def
                  oneMonthLater_def del: normaliseDay.simps)
qed

text \<open>
  Claim C6. For a start day from 1 to 28 and a clock reading \<open>now\<close> (a valid date, in
  the year 100 or later, since the \<open>Date\<close> constructor reads a smaller year as a year
  of the twentieth century), the period starts at midnight of the start day in the
  previous month when the day of the month of \<open>now\<close> is less than the start day, and at
  midnight of the start day in the month of \<open>now\<close> otherwise; it ends one calendar month
  after it starts.
\<close>

theorem billing_period_window:
  assumes "1 \<le> startDay (billingPeriod config)" and "startDay (billingPeriod config) \<le> 28"
    and "validDate now" and "100 \<le> fullYear now"
  shows "fst (getCurrentBillingPeriod config now) =
           (if date now < startDay (billingPeriod config)
            then (if month now = 0
                  then midnight (fullYear now - 1) 11 (startDay (billingPeriod config))
                  else midnight (fullYear now) (month now - 1) (startDay (billingPeriod config)))
            else midnight (fullYear now) (month now) (startDay (billingPeriod config)))
         \<and> snd (getCurrentBillingPeriod config now)
             = oneMonthLater (fst (getCurrentBillingPeriod config now))"
proof -
  let ?sd = "startDay (billingPeriod config)"
  from assms(3) have m: "0 \<le> month now" "month now \<le> 11" by (simp_all add: validDate_def)
  have cur: "newDate (fullYear now) (month now) ?sd = midnight (fullYear now) (month now) ?sd"
    using assms m by (intro newDate_this_month) simp_all
  have prev: "newDate (fullYear now) (month now - 1) ?sd =
      (if month now = 0 then midnight (fullYear now - 1) 11 ?sd
       else midnight (fullYear now) (month now - 1) ?sd)"
    using assms m by (intro newDate_previous_month) simp_all
  have later: "\<And>y mm. 0 \<le> mm \<Longrightarrow> mm \<le> 11 \<Longrightarrow>
      setMonth (midnight y mm ?sd) (getMonth (midnight y mm ?sd) + 1)
        = oneMonthLater (midnight y mm ?sd)"
    using assms(1,2) by (simp add: setMonth_following)
  show ?thesis
  proof (cases "date now < ?sd")
    case True
    show ?thesis
    proof (cases "month now = 0")
      case z: True
      have "getCurrentBillingPeriod config now =
          (midnight (fullYear now - 1) 11 ?sd, oneMonthLater (midnight (fullYear now - 1) 11 ?sd))"
        using True z prev later[of 11 "fullYear now - 1"]
        by (simp add: getCurrentBillingPeriod_def Let_def getFullYear_def getMonth_def getDate_def)
      with True z show ?thesis by simp
    next
      case nz: False
      have "getCurrentBillingPeriod config now =
          (midnight (fullYear now) (month now - 1) ?sd,
           oneMonthLater (midnight (fullYear now) (month now - 1) ?sd))"
        using True nz prev m later[of "month now - 1" "fullYear now"]
        by (simp add: getCurrentBillingPeriod_def Let_def getFullYear_def getMonth_def getDate_def)
      with True nz show ?thesis by simp
    qed
  next
    case False
    have "getCurrentBillingPeriod config now =
        (midnight (fullYear now) (month now) ?sd,
         oneMonthLater (midnight (fullYear now) (month now) ?sd))"
      using False cur m later[of "month now" "fullYear now"]
      by (simp add: getCurrentBillingPeriod_def Let_def getFullYear_def getMonth_def getDate_def)
    with False show ?thesis by simp
  qed
qed


theorem billing_period_window_witness:
  "1 \<le> startDay (billingPeriod CONTRACT_CONFIG) \<and> startDay (billingPeriod CONTRACT_CONFIG) \<le> 28
   \<and> validDate \<lparr>fullYear = 2024, month = 2, date = 15, hours = 9, minutes = 30, seconds = 0,
         milliseconds = 0\<rparr>
   \<and> toISOString (fst (getCurrentBillingPeriod CONTRACT_CONFIG
        \<lparr>fullYear = 2024, month = 2, date = 15, hours = 9, minutes = 30, seconds = 0,
           milliseconds = 0\<rparr>))
       = ''2024-03-01T00:00:00.000Z''
   \<and> toISOString (snd (getCurrentBillingPeriod CONTRACT_CONFIG
        \<lparr>fullYear = 2024, month = 2, date = 15, hours = 9, minutes = 30, seconds = 0,
           milliseconds = 0\<rparr>))
       = ''2024-04-01T00:00:00.000Z''
   \<and> toISOString (fst (getCurrentBillingPeriod
        (CONTRACT_CONFIG\<lparr>billingPeriod := \<lparr>startDay = 15, timezone = ''UTC''\<rparr>\<rparr>)
        \<lparr>fullYear = 2024, month = 2, date = 10, hours = 9, minutes = 30, seconds = 0,
           milliseconds = 0\<rparr>))
       = ''2024-02-15T00:00:00.000Z''
   \<and> toISOString (snd (getCurrentBillingPeriod
        (CONTRACT_CONFIG\<lparr>billingPeriod := \<lparr>startDay = 15, timezone = ''UTC''\<rparr>\<rparr>)
        \<lparr>fullYear = 2024, month = 2, date = 10, hours = 9, minutes = 30, seconds = 0,
           milliseconds = 0\<rparr>))
       = ''2024-03-15T00:00:00.000Z''"
  using billing_period_window [of CONTRACT_CONFIG
          "\<lparr>fullYear = 2024, month = 2, date = 15, hours = 9, minutes = 30, seconds = 0,
             milliseconds = 0\<rparr>"]
        billing_period_window
          [of "CONTRACT_CONFIG\<lparr>billingPeriod := \<lparr>startDay = 15, timezone = ''UTC''\<rparr>\<rparr>"
          "\<lparr>fullYear = 2024, month = 2, date = 10, hours = 9, minutes = 30, seconds = 0,
             milliseconds = 0\<rparr>"]
  by (simp add: CONTRACT_CONFIG_def validDate_def daysInMonth_def iso_eval)


subsection \<open>The categorizer\<close>

lemma mset_insertSorted: "mset (insertSorted cmp x xs) = add_mset x (mset xs)"
  by (induction xs) auto

lemma mset_arraySort: "mset (arraySort cmp xs) = mset xs"
  by (induction xs) (auto simp: arraySort_def mset_insertSorted)

lemma set_insertSorted: "set (insertSorted cmp x xs) = insert x (set xs)"
  by (induction xs) auto

lemma sorted_insertSorted:
  "sorted_wrt (\<lambda>a b. percentUsed b \<le> percentUsed a) xs \<Longrightarrow>
   sorted_wrt (\<lambda>a b. percentUsed b \<le> percentUsed a) (insertSorted byPercentUsedDescending x xs)"
  by (induction xs) (auto simp: set_insertSorted byPercentUsedDescending_def)

lemma sorted_arraySort:
  "sorted_wrt (\<lambda>a b. percentUsed b \<le> percentUsed a) (arraySort byPercentUsedDescending xs)"
proof (induction xs)
  case Nil show ?case by (simp add: arraySort_def)
next
  case (Cons x xs)
  then show ?case using sorted_insertSorted[of "arraySort byPercentUsedDescending xs" x]
    by (simp add: arraySort_def)
qed

lemma categorizeLoop_buckets:
  "categorizeLoop rs a w s =
     s\<lparr>alerts := alerts s @ filter (\<lambda>r. \<not> errorPresent r \<and> a \<le> percentUsed r) rs,
       warnings := warnings s @ filter (\<lambda>r. \<not> errorPresent r \<and> \<not> a \<le> percentUsed r \<and> w \<le> percentUsed r) rs,
       healthy := healthy s @ filter (\<lambda>r. \<not> errorPresent r \<and> \<not> a \<le> percentUsed r \<and> \<not> w \<le> percentUsed r) rs,
       errors := errors s @ filter errorPresent rs\<rparr>"
  by (induction rs arbitrary: s) auto

lemma four_way_split:
  "mset (filter (\<lambda>r. \<not> e r \<and> p r) rs) + mset (filter (\<lambda>r. \<not> e r \<and> \<not> p r \<and> q r) rs)
   + mset (filter (\<lambda>r. \<not> e r \<and> \<not> p r \<and> \<not> q r) rs) + mset (filter e rs) = mset rs"
  by (induction rs) auto

text \<open>
  Claim C4. A record has an error when its \<open>error\<close> field holds a non-empty string
  (the test \<open>if (result.error)\<close>). The \<open>errors\<close> bucket holds the records with an
  error and \<open>healthy\<close> the records without error below both thresholds, both in
  input order; \<open>alerts\<close> holds exactly the records without error at or above the
  alert threshold and \<open>warnings\<close> exactly those without error below the alert threshold
  and at or above the warning threshold, both sorted by \<open>percentUsed\<close>, largest first.
  The four buckets together are the input, each record once, so their sizes add up to
  the length of the input.
\<close>

theorem categorizeUsage_buckets:
  "errors (categorizeUsage now rs a w) = filter errorPresent rs
   \<and> healthy (categorizeUsage now rs a w)
       = filter (\<lambda>r. \<not> errorPresent r \<and> \<not> a \<le> percentUsed r \<and> \<not> w \<le> percentUsed r) rs
   \<and> mset (alerts (categorizeUsage now rs a w))
       = mset (filter (\<lambda>r. \<not> errorPresent r \<and> a \<le> percentUsed r) rs)
   \<and> mset (warnings (categorizeUsage now rs a w))
       = mset (filter (\<lambda>r. \<not> errorPresent r \<and> \<not> a \<le> percentUsed r \<and> w \<le> percentUsed r) rs)
   \<and> sorted_wrt (\<lambda>x y. percentUsed y \<le> percentUsed x) (alerts (categorizeUsage now rs a w))
   \<and> sorted_wrt (\<lambda>x y. percentUsed y \<le> percentUsed x) (warnings (categorizeUsage now rs a w))
   \<and> mset (alerts (categorizeUsage now rs a w)) + mset (warnings (categorizeUsage now rs a w))
       + mset (healthy (categorizeUsage now rs a w)) + mset (errors (categorizeUsage now rs a w))
       = mset rs
   \<and> length (alerts (categorizeUsage now rs a w)) + length (warnings (categorizeUsage now rs a w))
       + length (healthy (categorizeUsage now rs a w)) + length (errors (categorizeUsage now rs a w))
       = length rs"
proof -
  let ?s = "categorizeUsage now rs a w"
  have e: "errors ?s = filter errorPresent rs"
    and h: "healthy ?s = filter (\<lambda>r. \<not> errorPresent r \<and> \<not> a \<le> percentUsed r \<and> \<not> w \<le> percentUsed r) rs"
    and al: "alerts ?s = arraySort byPercentUsedDescending (filter (\<lambda>r. \<not> errorPresent r \<and> a \<le> percentUsed r) rs)"
    and wa: "warnings ?s = arraySort byPercentUsedDescending (filter (\<lambda>r. \<not> errorPresent r \<and> \<not> a \<le> percentUsed r \<and> w \<le> percentUsed r) rs)"
    by (simp_all add: categorizeUsage_def Let_def categorizeLoop_buckets)
  have m: "mset (alerts ?s) + mset (warnings ?s) + mset (healthy ?s) + mset (errors ?s) = mset rs"
    unfolding e h al wa mset_arraySort by (rule four_way_split)
  have "size (mset (alerts ?s) + mset (warnings ?s) + mset (healthy ?s) + mset (errors ?s)) = size (mset rs)"
    by (simp only: m)
  then have l: "length (alerts ?s) + length (warnings ?s) + length (healthy ?s) + length (errors ?s) = length rs"
    by simp
  show ?thesis
    using e h m l by (simp add: al wa mset_arraySort sorted_arraySort)
qed

subsection \<open>Rows of a result array\<close>

lemma rowsLoop_all_rows:
  "rowsLoop agg field (map Some items) t = Inr (foldl (\<lambda>t item. rowStep agg field item t) t items)"
  by (induction items arbitrary: t) auto

lemma rowsLoop_null_row:
  "None \<in> set rows \<Longrightarrow> \<exists>e. rowsLoop agg field rows t = Inl e"
  by (induction agg field rows t rule: rowsLoop.induct) auto

lemma totalValue_rowStep: "totalValue (rowStep agg field item t) = totalValue t + itemValue agg field item"
  by (simp add: rowStep_def Let_def split: option.splits)

lemma totalValue_fold:
  "totalValue (foldl (\<lambda>t item. rowStep agg field item t) t items)
     = totalValue t + sum_list (map (itemValue agg field) items)"
  by (induction items arbitrary: t) (auto simp: totalValue_rowStep)

lemma presentSamples_simps [simp]:
  "presentSamples [] = []"
  "presentSamples (None # ss) = presentSamples ss"
  "presentSamples (Some c # ss) = c # presentSamples ss"
  "presentSamples (ss @ ts) = presentSamples ss @ presentSamples ts"
  by (simp_all add: presentSamples_def)

lemma buildConfidence_totalsOf: "buildConfidence (totalsOf samples) = combineSamples samples"
  by (auto simp: buildConfidence_def totalsOf_def combineSamples_def Let_def)

lemma truncate_rowStep:
  "ConfidenceTotals.truncate t = totalsOf ss \<Longrightarrow>
   ConfidenceTotals.truncate (rowStep agg field item t) = totalsOf (ss @ [rowSample agg field item])"
  by (auto simp: rowStep_def rowSample_def totalsOf_def Let_def ConfidenceTotals.truncate_def levelOf_def split: option.splits)


lemma buildConfidence_truncate: "buildConfidence t = buildConfidence (ConfidenceTotals.truncate t)"
  by (simp add: buildConfidence_def ConfidenceTotals.truncate_def)

lemma truncate_fold_rows:
  "ConfidenceTotals.truncate t = totalsOf ss \<Longrightarrow>
   ConfidenceTotals.truncate (foldl (\<lambda>t item. rowStep agg field item t) t items)
     = totalsOf (ss @ map (rowSample agg field) items)"
proof (induction items arbitrary: t ss)
  case Nil then show ?case by simp
next
  case (Cons item items)
  from Cons.IH[OF truncate_rowStep[OF Cons.prems, of agg field item]]
  show ?case by simp
qed

lemma truncate_initial: "ConfidenceTotals.truncate initialExtractTotals = totalsOf []"
  by (simp add: initialExtractTotals_def totalsOf_def ConfidenceTotals.truncate_def)

lemma extractValue_try_rows:
  assumes "viewer d = Some v"
    and "(if sc = Zone then zones v else accounts v) = Some (Some entry # others)"
    and "map_of entry ds = Some (map Some items)"
  shows "extractValue_try (Some d) ds field agg sc =
           Inr \<lparr>value_e = sum_list (map (itemValue agg field) items),
                confidence_e = combineSamples (map (rowSample agg field) items)\<rparr>"
proof (cases items)
  case Nil
  with assms show ?thesis
    by (simp add: extractValue_try_def noValue_def combineSamples_def)
next
  case (Cons i rest)
  let ?t = "foldl (\<lambda>t item. rowStep agg field item t) initialExtractTotals items"
  have v: "totalValue ?t = sum_list (map (itemValue agg field) items)"
    by (simp add: totalValue_fold initialExtractTotals_def)
  have c: "buildConfidence ?t = combineSamples (map (rowSample agg field) items)"
    using truncate_fold_rows[OF truncate_initial, of agg field items]
    by (subst buildConfidence_truncate) (simp add: buildConfidence_totalsOf)
  have "rowsLoop agg field (map Some items) initialExtractTotals = Inr ?t"
    by (rule rowsLoop_all_rows)
  with assms Cons v c show ?thesis
    by (simp add: extractValue_try_def del: rowsLoop.simps foldl_Cons)
qed

lemma extractValue_rows:
  assumes "viewer d = Some v"
    and "(if sc = Zone then zones v else accounts v) = Some (Some entry # others)"
    and "map_of entry ds = Some (map Some items)"
  shows "extractValue (Some d) ds field agg sc =
           \<lparr>value_e = sum_list (map (itemValue agg field) items),
            confidence_e = combineSamples (map (rowSample agg field) items)\<rparr>"
  by (simp add: extractValue_def extractValue_try_rows[OF assms])

lemma extractValue_absent:
  assumes "viewer d = Some v"
    and "(if sc = Zone then zones v else accounts v) = None
         \<or> (if sc = Zone then zones v else accounts v) = Some []
         \<or> (\<exists>entry others. (if sc = Zone then zones v else accounts v) = Some (Some entry # others)
               \<and> (map_of entry ds = None \<or> map_of entry ds = Some []))"
  shows "extractValue (Some d) ds field agg sc = noValue"
  using assms by (auto simp: extractValue_def extractValue_try_def)

lemma extractValue_mismatch:
  assumes "dat = None
         \<or> (\<exists>d. dat = Some d \<and> viewer d = None)
         \<or> (\<exists>d v others. dat = Some d \<and> viewer d = Some v
               \<and> (if sc = Zone then zones v else accounts v) = Some (None # others))
         \<or> (\<exists>d v entry others rows. dat = Some d \<and> viewer d = Some v
               \<and> (if sc = Zone then zones v else accounts v) = Some (Some entry # others)
               \<and> map_of entry ds = Some rows \<and> None \<in> set rows)"
  shows "(\<exists>e. extractValue_try dat ds field agg sc = Inl e) \<and> extractValue dat ds field agg sc = noValue"
proof -
  have "\<exists>e. extractValue_try dat ds field agg sc = Inl e"
    using assms
  proof (elim disjE exE conjE)
    fix d v entry others rows
    assume a: "dat = Some d" "viewer d = Some v"
       "(if sc = Zone then zones v else accounts v) = Some (Some entry # others)"
       "map_of entry ds = Some rows" "None \<in> set rows"
    from a(5) obtain e where e: "rowsLoop agg field rows initialExtractTotals = Inl e"
      using rowsLoop_null_row by blast
    from a(5) have "rows \<noteq> []" by auto
    then obtain r rs where "rows = r # rs" by (cases rows) auto
    with a e show ?thesis
      by (simp add: extractValue_try_def del: rowsLoop.simps)
  qed (auto simp: extractValue_try_def)
  then show ?thesis by (auto simp: extractValue_def)
qed

subsection \<open>The loop over the zones\<close>

lemma addZoneConfidence_totalsOf:
  "t = totalsOf ss \<Longrightarrow> addZoneConfidence c t = totalsOf (ss @ [c])"
  by (cases c) (auto simp: addZoneConfidence_def totalsOf_def Let_def)

lemma initialConfidenceTotals_totalsOf: "initialConfidenceTotals = totalsOf []"
  by (simp add: initialConfidenceTotals_def totalsOf_def)

lemma zoneLoop_throws:
  "zoneOutcome env tok product filters s e z = Inl ex \<Longrightarrow>
   zoneLoop env tok product filters s e (z # rest) (result, totals, trace)
     = (Some ex, result, totals, trace @ [zoneRequest product filters s e z])"
  by (simp add: zoneOutcome_def zoneQuery_def zoneRequest_def Let_def)

lemma zoneLoop_step:
  "responds (zoneOutcome env tok product filters s e z) \<Longrightarrow>
   zoneLoop env tok product filters s e (z # rest) (result, totalsOf ss, trace)
     = zoneLoop env tok product filters s e rest
         (result\<lparr>currentUsage := currentUsage result + zoneValue env tok product filters s e z\<rparr>,
          totalsOf (ss @ [zoneSample env tok product filters s e z]),
          trace @ [zoneRequest product filters s e z])"
  by (auto simp: responds_def zoneOutcome_def zoneQuery_def zoneRequest_def Let_def zoneValue_def
        zoneSample_def zoneExtracted_def addZoneConfidence_totalsOf[symmetric] addZoneConfidence_def
      split: sum.splits)

lemma zoneLoop_responding_prefix:
  "\<forall>z\<in>set pre. responds (zoneOutcome env tok product filters s e z) \<Longrightarrow>
   zoneLoop env tok product filters s e (pre @ rest) (result, totalsOf ss, trace)
     = zoneLoop env tok product filters s e rest
         (result\<lparr>currentUsage := currentUsage result
                     + sum_list (map (zoneValue env tok product filters s e) pre)\<rparr>,
          totalsOf (ss @ map (zoneSample env tok product filters s e) pre),
          trace @ map (zoneRequest product filters s e) pre)"
proof (induction pre arbitrary: result ss trace)
  case Nil
  show ?case by simp
next
  case (Cons z pre)
  from Cons.prems have z: "responds (zoneOutcome env tok product filters s e z)"
    and pre: "\<forall>z\<in>set pre. responds (zoneOutcome env tok product filters s e z)" by simp_all
  show ?case
    by (simp add: zoneLoop_step[OF z] Cons.IH[OF pre] add.assoc del: zoneLoop.simps)
qed

subsection \<open>The \<open>try\<close> block of \<open>queryProductUsage\<close>\<close>

lemma finish_currentUsage:
  "currentUsage (calculatePercentage p (applyTransform p r)) = transformedUsage p (currentUsage r)"
  by (simp add: calculatePercentage_def applyTransform_def transformedUsage_def split: option.splits)

lemma finish_percentUsed:
  "percentUsed (calculatePercentage p (applyTransform p r))
     = (if limit_p p > 0 then transformedUsage p (currentUsage r) / limit_p p * 100 else 0)"
  by (simp add: calculatePercentage_def applyTransform_def transformedUsage_def split: option.splits)

lemma finish_others:
  "error (calculatePercentage p (applyTransform p r)) = error r"
  "confidence (calculatePercentage p (applyTransform p r)) = confidence r"
  "limit (calculatePercentage p (applyTransform p r)) = limit r"
  "unlimited (calculatePercentage p (applyTransform p r)) = unlimited r"
  "productId (calculatePercentage p (applyTransform p r)) = productId r"
  by (simp_all add: calculatePercentage_def applyTransform_def split: option.splits)

lemma try_zone_no_tags:
  assumes "scope_p product = Zone" and "zoneTags product = None \<or> zoneTags product = Some []"
  shows "queryProductUsage_try env tok acc product bs be filters result =
           (None,
            calculatePercentage product
              (applyTransform product (result\<lparr>error := Some ''No zone tags configured''\<rparr>)),
            [])"
  using assms by (auto simp: queryProductUsage_try_def Let_def)

lemma try_zone_all_respond:
  assumes "scope_p product = Zone" and "zoneTags product = Some zs" and "zs \<noteq> []"
    and "\<forall>z\<in>set zs. responds (zoneOutcome env tok product filters (boundDate product bs) (boundDate product be) z)"
  shows "queryProductUsage_try env tok acc product bs be filters result =
           (None,
            calculatePercentage product
              (applyTransform product
                 (case combineSamples (map (zoneSample env tok product filters (boundDate product bs) (boundDate product be)) zs) of
                    Some c \<Rightarrow> result\<lparr>currentUsage := currentUsage result
                        + sum_list (map (zoneValue env tok product filters (boundDate product bs) (boundDate product be)) zs),
                        confidence := Some c\<rparr>
                  | None \<Rightarrow> result\<lparr>currentUsage := currentUsage result
                        + sum_list (map (zoneValue env tok product filters (boundDate product bs) (boundDate product be)) zs)\<rparr>)),
            map (zoneRequest product filters (boundDate product bs) (boundDate product be)) zs)"
proof -
  have "zoneLoop env tok product filters (boundDate product bs) (boundDate product be) (zs @ [])
          (result, totalsOf [], []) =
        (None, result\<lparr>currentUsage := currentUsage result
                        + sum_list (map (zoneValue env tok product filters (boundDate product bs) (boundDate product be)) zs)\<rparr>,
         totalsOf ([] @ map (zoneSample env tok product filters (boundDate product bs) (boundDate product be)) zs),
         [] @ map (zoneRequest product filters (boundDate product bs) (boundDate product be)) zs)"
    by (subst zoneLoop_responding_prefix[OF assms(4)]) simp
  then show ?thesis
    using assms(1,2,3)
    by (simp add: queryProductUsage_try_def Let_def boundDate_def[symmetric]
          initialConfidenceTotals_totalsOf buildConfidence_totalsOf
        del: zoneLoop.simps split: option.splits)
qed

lemma try_zone_throws:
  assumes "scope_p product = Zone" and "zoneTags product = Some (pre @ z # post)"
    and "\<forall>z\<in>set pre. responds (zoneOutcome env tok product filters (boundDate product bs) (boundDate product be) z)"
    and "zoneOutcome env tok product filters (boundDate product bs) (boundDate product be) z = Inl ex"
  shows "queryProductUsage_try env tok acc product bs be filters result =
           (Some ex,
            result\<lparr>currentUsage := currentUsage result
               + sum_list (map (zoneValue env tok product filters (boundDate product bs) (boundDate product be)) pre)\<rparr>,
            map (zoneRequest product filters (boundDate product bs) (boundDate product be)) (pre @ [z]))"
proof -
  have "zoneLoop env tok product filters (boundDate product bs) (boundDate product be) (pre @ z # post)
          (result, totalsOf [], []) =
        (Some ex, result\<lparr>currentUsage := currentUsage result
                        + sum_list (map (zoneValue env tok product filters (boundDate product bs) (boundDate product be)) pre)\<rparr>,
         totalsOf ([] @ map (zoneSample env tok product filters (boundDate product bs) (boundDate product be)) pre),
         ([] @ map (zoneRequest product filters (boundDate product bs) (boundDate product be)) pre)
           @ [zoneRequest product filters (boundDate product bs) (boundDate product be) z])"
    by (subst zoneLoop_responding_prefix[OF assms(3)]) (simp only: zoneLoop_throws[OF assms(4)])
  then show ?thesis
    using assms(1,2)
    by (simp add: queryProductUsage_try_def Let_def boundDate_def[symmetric]
          initialConfidenceTotals_totalsOf
        del: zoneLoop.simps)
qed

lemma try_account:
  assumes "scope_p product = Account"
  shows "queryProductUsage_try env tok acc product bs be filters result =
     (case accountOutcome env tok acc product filters (boundDate product bs) (boundDate product be) of
        Inl ex \<Rightarrow> (Some ex, result, [accountRequest acc product filters (boundDate product bs) (boundDate product be)])
      | Inr response \<Rightarrow>
          (None,
           calculatePercentage product (applyTransform product
             (if hasErrors response then result\<lparr>error := Some (errorMessages response)\<rparr>
              else result\<lparr>currentUsage := value_e (extractValue (data_g response) (dataset product) (field_p product) (aggregationOf product) Account),
                         confidence := confidence_e (extractValue (data_g response) (dataset product) (field_p product) (aggregationOf product) Account)\<rparr>)),
           [accountRequest acc product filters (boundDate product bs) (boundDate product be)]))"
  using assms
  by (simp add: queryProductUsage_try_def Let_def boundDate_def accountOutcome_def accountQuery_def
        accountRequest_def split: sum.splits)


subsection \<open>Outcomes of \<open>queryProductUsage\<close>\<close>

lemma queryProductUsage_via_try:
  "queryProductUsage_try env tok acc product bs be filters (initialResult product bs be) = (thrown, r, tr) \<Longrightarrow>
   queryProductUsage env tok acc product bs be filters =
     ((case thrown of Some (Exception message) \<Rightarrow> r\<lparr>error := Some message\<rparr> | None \<Rightarrow> r)
        \<lparr>queryDurationMs := Some (elapsed env (id_p product))\<rparr>, tr)"
  by (simp add: queryProductUsage_def)

lemma initialResult_fields:
  "currentUsage (initialResult product bs be) = 0"
  "percentUsed (initialResult product bs be) = 0"
  "error (initialResult product bs be) = None"
  "confidence (initialResult product bs be) = None"
  "limit (initialResult product bs be) = limit_p product"
  "unlimited (initialResult product bs be) = unlimited_p product"
  "enabled (initialResult product bs be) = None"
  "productId (initialResult product bs be) = id_p product"
  by (simp_all add: initialResult_def)

lemma first_throwing_zone:
  assumes "\<not> (\<forall>z\<in>set zs. responds (f z))"
  shows "\<exists>pre z post ex. zs = pre @ z # post \<and> (\<forall>z\<in>set pre. responds (f z)) \<and> f z = Inl ex"
proof -
  from assms have "\<exists>z\<in>set zs. \<not> responds (f z)" by blast
  from split_list_first_prop[OF this]
  obtain pre z post where "zs = pre @ z # post" "\<not> responds (f z)" "\<forall>y\<in>set pre. \<not> \<not> responds (f y)"
    by blast
  moreover from this(2) obtain ex where "f z = Inl ex" by (cases "f z") (auto simp: responds_def)
  ultimately show ?thesis by auto
qed

text \<open>Every run of the try block ends in one of two ways.\<close>

lemma try_outcome:
  "\<exists>thrown r0 tr.
     queryProductUsage_try env tok acc product bs be filters result
       = (thrown, (if thrown = None then calculatePercentage product (applyTransform product r0) else r0), tr)
     \<and> percentUsed r0 = percentUsed result \<and> limit r0 = limit result \<and> unlimited r0 = unlimited result
     \<and> enabled r0 = enabled result \<and> productId r0 = productId result
     \<and> (thrown \<noteq> None \<and> scope_p product = Account \<longrightarrow> currentUsage r0 = currentUsage result)"
proof (cases "scope_p product")
  case Account
  show ?thesis
  proof (cases "accountOutcome env tok acc product filters (boundDate product bs) (boundDate product be)")
    case (Inl ex)
    show ?thesis
      by (rule exI[of _ "Some ex"], rule exI[of _ result],
          rule exI[of _ "[accountRequest acc product filters (boundDate product bs) (boundDate product be)]"])
         (simp add: try_account[OF Account] Inl)
  next
    case (Inr response)
    show ?thesis
      by (rule exI[of _ None],
          rule exI[of _ "if hasErrors response then result\<lparr>error := Some (errorMessages response)\<rparr>
              else result\<lparr>currentUsage := value_e (extractValue (data_g response) (dataset product) (field_p product) (aggregationOf product) Account),
                         confidence := confidence_e (extractValue (data_g response) (dataset product) (field_p product) (aggregationOf product) Account)\<rparr>"],
          rule exI[of _ "[accountRequest acc product filters (boundDate product bs) (boundDate product be)]"])
         (simp add: try_account[OF Account] Inr)
  qed
next
  case Zone
  show ?thesis
  proof (cases "zoneTags product = None \<or> zoneTags product = Some []")
    case True
    show ?thesis
      by (rule exI[of _ None], rule exI[of _ "result\<lparr>error := Some ''No zone tags configured''\<rparr>"],
          rule exI[of _ "[]"])
         (simp add: try_zone_no_tags[OF Zone True])
  next
    case False
    then obtain zs where zs: "zoneTags product = Some zs" "zs \<noteq> []" by auto
    let ?f = "zoneOutcome env tok product filters (boundDate product bs) (boundDate product be)"
    let ?v = "zoneValue env tok product filters (boundDate product bs) (boundDate product be)"
    let ?q = "zoneRequest product filters (boundDate product bs) (boundDate product be)"
    show ?thesis
    proof (cases "\<forall>z\<in>set zs. responds (?f z)")
      case True
      show ?thesis
        by (rule exI[of _ None],
            rule exI[of _ "case combineSamples (map (zoneSample env tok product filters (boundDate product bs) (boundDate product be)) zs) of
                    Some c \<Rightarrow> result\<lparr>currentUsage := currentUsage result + sum_list (map ?v zs), confidence := Some c\<rparr>
                  | None \<Rightarrow> result\<lparr>currentUsage := currentUsage result + sum_list (map ?v zs)\<rparr>"],
            rule exI[of _ "map ?q zs"])
           (simp add: try_zone_all_respond[OF Zone zs True] split: option.splits)
    next
      case False
      from first_throwing_zone[OF this] obtain pre z post ex where
        d: "zs = pre @ z # post" "\<forall>z\<in>set pre. responds (?f z)" "?f z = Inl ex" by blast
      from zs d have t: "zoneTags product = Some (pre @ z # post)" by simp
      show ?thesis
        by (rule exI[of _ "Some ex"],
            rule exI[of _ "result\<lparr>currentUsage := currentUsage result + sum_list (map ?v pre)\<rparr>"],
            rule exI[of _ "map ?q (pre @ [z])"])
           (simp add: try_zone_throws[OF Zone t d(2) d(3)] Zone)
    qed
  qed
qed

lemma calculatePercentage_fields:
  "percentUsed (calculatePercentage p x) = (if limit_p p > 0 then currentUsage x / limit_p p * 100 else 0)"
  "currentUsage (calculatePercentage p x) = currentUsage x"
  by (simp_all add: calculatePercentage_def)


subsection \<open>The example backend\<close>

lemma zarazOn_fields:
  "scope_p (zarazOn zs) = Zone" "zoneTags (zarazOn zs) = Some zs" "limit_p (zarazOn zs) = 1000"
  "dataset (zarazOn zs) = ''zarazTrackAdaptiveGroups''" "field_p (zarazOn zs) = []"
  "aggregationOf (zarazOn zs) = AggCount" "transform (zarazOn zs) = None"
  "unlimited_p (zarazOn zs) = None" "id_p (zarazOn zs) = ''zaraz_events''"
  "filterFieldOf (zarazOn zs) = ''datetimeHour''" "enabled_p (zarazOn zs)"
  by (simp_all add: zarazOn_def mergeProductConfig_def zaraz_events_def aggregationOf_def
        filterFieldOf_def ProductDefinition.defs ProductRuntime.defs)

lemma example_zone_outcomes:
  "zoneOutcome exampleEnv tok p filters s e ''Z1''
     = Inr (zoneResponse ''zarazTrackAdaptiveGroups'' [Some (countRow 100 90 110)])"
  "zoneOutcome exampleEnv tok p filters s e ''Z4''
     = Inr (zoneResponse ''zarazTrackAdaptiveGroups'' [Some (countRow 200 190 210)])"
  "zoneOutcome exampleEnv tok p filters s e ''Z3''
     = Inr \<lparr>data_g = None, errors_g = Some [''unknown field'']\<rparr>"
  "zoneOutcome exampleEnv tok p filters s e ''Z2''
     = Inl (Exception ''GraphQL request failed: 500 Internal Server Error'')"
  by (simp_all add: zoneOutcome_def exampleEnv_def)

lemma example_extract:
  "extractValue (data_g (zoneResponse ''zarazTrackAdaptiveGroups'' [Some (countRow n lo up)]))
      ''zarazTrackAdaptiveGroups'' [] AggCount Zone
   = \<lparr>value_e = n, confidence_e = combineSamples [rowSample AggCount [] (countRow n lo up)]\<rparr>"
  using extractValue_rows[of "\<lparr>viewer = Some \<lparr>zones = Some [Some [(''zarazTrackAdaptiveGroups'', [Some (countRow n lo up)])]], accounts = None\<rparr>\<rparr>"
     "\<lparr>zones = Some [Some [(''zarazTrackAdaptiveGroups'', [Some (countRow n lo up)])]], accounts = None\<rparr>"
     Zone "[(''zarazTrackAdaptiveGroups'', [Some (countRow n lo up)])]" "[]" "''zarazTrackAdaptiveGroups''" "[countRow n lo up]" "[]" AggCount]
  by (simp add: zoneResponse_def countRow_def orZero_def)

lemma example_elapsed: "elapsed exampleEnv p = 12"
  by (simp add: exampleEnv_def)

lemma example_rowSample:
  "rowSample AggCount [] (countRow n lo up)
     = Some \<lparr>estimate = n, lower = lo, upper = up, sampleSize = 10, isValid = True,
             level = 95 / 100, confidencePercent = None\<rparr>"
  by (simp add: rowSample_def countRow_def levelOf_def orZero_def)

lemma hasErrors_zoneResponse: "\<not> hasErrors (zoneResponse ds rows)"
  by (simp add: hasErrors_def zoneResponse_def)

lemma example_combine_single:
  "0 < n \<Longrightarrow>
   combineSamples [Some \<lparr>estimate = n, lower = lo, upper = up, sampleSize = k, isValid = b,
                         level = l, confidencePercent = None\<rparr>]
     = Some \<lparr>estimate = n, lower = lo, upper = up, sampleSize = k, isValid = b, level = l,
             confidencePercent = Some (calculateConfidencePercent (Fin n) (Fin lo) (Fin up))\<rparr>"
  by (simp add: combineSamples_def)

lemma example_zone_extracted:
  "zoneExtracted exampleEnv tok (zarazOn zs) filters s e ''Z1''
     = Some \<lparr>value_e = 100,
             confidence_e = Some \<lparr>estimate = 100, lower = 90, upper = 110, sampleSize = 10,
               isValid = True, level = 95 / 100, confidencePercent = Some (Fin 90)\<rparr>\<rparr>"
  "zoneExtracted exampleEnv tok (zarazOn zs) filters s e ''Z4''
     = Some \<lparr>value_e = 200,
             confidence_e = Some \<lparr>estimate = 200, lower = 190, upper = 210, sampleSize = 10,
               isValid = True, level = 95 / 100, confidencePercent = Some (Fin 95)\<rparr>\<rparr>"
  "zoneExtracted exampleEnv tok (zarazOn zs) filters s e ''Z3'' = None"
  "zoneExtracted exampleEnv tok (zarazOn zs) filters s e ''Z2'' = None"
  by (simp_all add: zoneExtracted_def example_zone_outcomes zarazOn_fields example_extract
        example_rowSample hasErrors_zoneResponse example_combine_single confidencePercent_finite)
     (simp add: hasErrors_def)

lemma example_zone_values:
  "zoneValue exampleEnv tok (zarazOn zs) filters s e ''Z1'' = 100"
  "zoneValue exampleEnv tok (zarazOn zs) filters s e ''Z4'' = 200"
  "zoneValue exampleEnv tok (zarazOn zs) filters s e ''Z3'' = 0"
  by (simp_all add: zoneValue_def example_zone_extracted)


lemma example_responds:
  "responds (zoneOutcome exampleEnv tok p filters s e ''Z1'')"
  "responds (zoneOutcome exampleEnv tok p filters s e ''Z3'')"
  "responds (zoneOutcome exampleEnv tok p filters s e ''Z4'')"
  "\<not> responds (zoneOutcome exampleEnv tok p filters s e ''Z2'')"
  by (simp_all add: example_zone_outcomes responds_def)

lemma example_throwing_try:
  "queryProductUsage_try exampleEnv tok acc (zarazOn [''Z1'', ''Z2'']) bs be filters result
     = (Some (Exception ''GraphQL request failed: 500 Internal Server Error''),
        result\<lparr>currentUsage := currentUsage result + 100\<rparr>,
        map (zoneRequest (zarazOn [''Z1'', ''Z2'']) filters (boundDate (zarazOn [''Z1'', ''Z2'']) bs)
              (boundDate (zarazOn [''Z1'', ''Z2'']) be)) [''Z1'', ''Z2''])"
  using try_zone_throws[of "zarazOn [''Z1'', ''Z2'']" "[''Z1'']" "''Z2''" "[]" exampleEnv tok filters bs be
          "Exception ''GraphQL request failed: 500 Internal Server Error''" acc result]
  by (simp add: zarazOn_fields example_responds example_zone_outcomes(4) example_zone_values)

lemma example_throwing_result:
  "fst (queryProductUsage exampleEnv tok acc (zarazOn [''Z1'', ''Z2'']) bs be filters)
     = (initialResult (zarazOn [''Z1'', ''Z2'']) bs be)
         \<lparr>currentUsage := 100,
          error := Some ''GraphQL request failed: 500 Internal Server Error'',
          queryDurationMs := Some 12\<rparr>"
  by (simp add: queryProductUsage_via_try[OF example_throwing_try] initialResult_fields example_elapsed)

lemma example_throwing_first_result:
  "fst (queryProductUsage exampleEnv tok acc (zarazOn [''Z2'', ''Z1'']) bs be filters)
     = (initialResult (zarazOn [''Z2'', ''Z1'']) bs be)
         \<lparr>error := Some ''GraphQL request failed: 500 Internal Server Error'',
          queryDurationMs := Some 12\<rparr>"
  using try_zone_throws[of "zarazOn [''Z2'', ''Z1'']" "[]" "''Z2''" "[''Z1'']" exampleEnv tok filters bs be
          "Exception ''GraphQL request failed: 500 Internal Server Error''" acc
          "initialResult (zarazOn [''Z2'', ''Z1'']) bs be"]
  by (simp add: zarazOn_fields example_zone_outcomes(4) queryProductUsage_def example_elapsed)

lemma example_responding_result:
  "fst (queryProductUsage exampleEnv tok acc (zarazOn [''Z1'', ''Z3'', ''Z4'']) bs be filters)
     = (initialResult (zarazOn [''Z1'', ''Z3'', ''Z4'']) bs be)
         \<lparr>currentUsage := 300, percentUsed := 30,
          queryDurationMs := Some 12,
          confidence := combineSamples
             (map (zoneSample exampleEnv tok (zarazOn [''Z1'', ''Z3'', ''Z4'']) filters
                (boundDate (zarazOn [''Z1'', ''Z3'', ''Z4'']) bs) (boundDate (zarazOn [''Z1'', ''Z3'', ''Z4'']) be))
                [''Z1'', ''Z3'', ''Z4''])\<rparr>"
  using try_zone_all_respond[of "zarazOn [''Z1'', ''Z3'', ''Z4'']" "[''Z1'', ''Z3'', ''Z4'']" exampleEnv tok filters bs be
          acc "initialResult (zarazOn [''Z1'', ''Z3'', ''Z4'']) bs be"]
  by (simp add: zarazOn_fields example_responds example_zone_values queryProductUsage_def example_elapsed
        initialResult_fields calculatePercentage_def applyTransform_def split: option.splits)

lemma tunnelWithLimit_fields:
  "scope_p tunnelWithLimit = Account" "limit_p tunnelWithLimit = 100"
  "dataset tunnelWithLimit = ''cloudflareTunnelsAnalyticsAdaptiveGroups''" "field_p tunnelWithLimit = []"
  "aggregationOf tunnelWithLimit = AggCount" "transform tunnelWithLimit = None"
  "unlimited_p tunnelWithLimit = Some True" "id_p tunnelWithLimit = ''tunnel_requests''"
  by (simp_all add: tunnelWithLimit_def mergeProductConfig_def tunnel_requests_def aggregationOf_def
        ProductDefinition.defs ProductRuntime.defs)

lemma example_account_outcome:
  "accountOutcome exampleEnv tok acc p filters s e = Inr \<lparr>data_g = Some exampleAccountPayload, errors_g = None\<rparr>"
  by (simp add: accountOutcome_def exampleEnv_def exampleAccountPayload_def)

lemma example_account_extract:
  "extractValue (Some exampleAccountPayload) ''cloudflareTunnelsAnalyticsAdaptiveGroups'' [] AggCount Account
     = \<lparr>value_e = 50, confidence_e = None\<rparr>"
  "extractValue (Some exampleAccountPayload) ''workersInvocationsAdaptive'' ''cpuTimeUs'' AggSum Account
     = \<lparr>value_e = 50000, confidence_e = None\<rparr>"
  using extractValue_rows[of exampleAccountPayload
     "\<lparr>zones = None, accounts = Some [Some
                       [(''workersInvocationsAdaptive'', [Some (cpuRow 30000), Some (cpuRow 20000)]),
                        (''cloudflareTunnelsAnalyticsAdaptiveGroups'',
                         [Some \<lparr>count_i = Some 50, sum_i = None, avg_i = None, max_i = None,
                                 confidence_i = None\<rparr>])]]\<rparr>"
     Account "[(''workersInvocationsAdaptive'', [Some (cpuRow 30000), Some (cpuRow 20000)]),
                        (''cloudflareTunnelsAnalyticsAdaptiveGroups'',
                         [Some \<lparr>count_i = Some 50, sum_i = None, avg_i = None, max_i = None,
                                 confidence_i = None\<rparr>])]" "[]"
     "''cloudflareTunnelsAnalyticsAdaptiveGroups''"
     "[\<lparr>count_i = Some 50, sum_i = None, avg_i = None, max_i = None, confidence_i = None\<rparr>]" "[]" AggCount]
   extractValue_rows[of exampleAccountPayload
     "\<lparr>zones = None, accounts = Some [Some
                       [(''workersInvocationsAdaptive'', [Some (cpuRow 30000), Some (cpuRow 20000)]),
                        (''cloudflareTunnelsAnalyticsAdaptiveGroups'',
                         [Some \<lparr>count_i = Some 50, sum_i = None, avg_i = None, max_i = None,
                                 confidence_i = None\<rparr>])]]\<rparr>"
     Account "[(''workersInvocationsAdaptive'', [Some (cpuRow 30000), Some (cpuRow 20000)]),
                        (''cloudflareTunnelsAnalyticsAdaptiveGroups'',
                         [Some \<lparr>count_i = Some 50, sum_i = None, avg_i = None, max_i = None,
                                 confidence_i = None\<rparr>])]" "[]"
     "''workersInvocationsAdaptive''"
     "[cpuRow 30000, cpuRow 20000]" "''cpuTimeUs''" AggSum]
  by (simp_all add: exampleAccountPayload_def orZero_def cpuRow_def combineSamples_def rowSample_def)

lemma example_tunnel_result:
  "fst (queryProductUsage exampleEnv tok acc tunnelWithLimit bs be filters)
     = (initialResult tunnelWithLimit bs be)
         \<lparr>currentUsage := 50, percentUsed := 50, queryDurationMs := Some 12\<rparr>"
  by (simp add: queryProductUsage_def try_account tunnelWithLimit_fields example_account_outcome
        hasErrors_def example_account_extract calculatePercentage_def applyTransform_def example_elapsed
        initialResult_def)


subsection \<open>Zone fan-out\<close>

text \<open>
  Claim C1, as amended. For a zone-scoped product: with no zone tag configured the
  record gets the error \<open>No zone tags configured\<close> and no query is issued. With at
  least one zone tag, when the query of every zone is answered, the error stays unset
  (also when every answer carries GraphQL errors) and the usage is the sum over the
  zones, transformed, where a zone whose answer carries GraphQL errors counts as zero.
  When the query of a zone throws after the zones before it were answered, the error is
  the message of the exception, no later zone is queried, \<open>percentUsed\<close> is 0 and
  \<open>currentUsage\<close> is the sum of the zones before it.
\<close>

theorem zone_fanout:
  fixes env tok acc product bs be filters
  defines "r \<equiv> fst (queryProductUsage env tok acc product bs be filters)"
    and "issued \<equiv> snd (queryProductUsage env tok acc product bs be filters)"
    and "outcome \<equiv> zoneOutcome env tok product filters (boundDate product bs) (boundDate product be)"
    and "usage \<equiv> zoneValue env tok product filters (boundDate product bs) (boundDate product be)"
    and "request \<equiv> zoneRequest product filters (boundDate product bs) (boundDate product be)"
  assumes zone: "scope_p product = Zone"
  shows "(zoneTags product = None \<or> zoneTags product = Some [] \<longrightarrow>
            error r = Some ''No zone tags configured'' \<and> currentUsage r = 0 \<and> percentUsed r = 0
            \<and> issued = [])
     \<and> (zoneTags product = Some zs \<and> zs \<noteq> [] \<and> (\<forall>z\<in>set zs. responds (outcome z)) \<longrightarrow>
            error r = None \<and> currentUsage r = transformedUsage product (sum_list (map usage zs))
            \<and> issued = map request zs)
     \<and> (outcome z' = Inr response \<and> hasErrors response \<longrightarrow> usage z' = 0)
     \<and> (zoneTags product = Some (pre @ z # post) \<and> (\<forall>z\<in>set pre. responds (outcome z))
          \<and> outcome z = Inl (Exception msg) \<longrightarrow>
            error r = Some msg \<and> currentUsage r = sum_list (map usage pre) \<and> percentUsed r = 0
            \<and> issued = map request (pre @ [z]))"
proof -
  have none: "zoneTags product = None \<or> zoneTags product = Some [] \<longrightarrow>
            error r = Some ''No zone tags configured'' \<and> currentUsage r = 0 \<and> percentUsed r = 0
            \<and> issued = []"
  proof
    assume a: "zoneTags product = None \<or> zoneTags product = Some []"
    have "transformedUsage product 0 = 0" by (simp add: transformedUsage_def split: option.splits)
    then show "error r = Some ''No zone tags configured'' \<and> currentUsage r = 0 \<and> percentUsed r = 0
            \<and> issued = []"
      unfolding r_def issued_def
      by (simp add: queryProductUsage_via_try[OF try_zone_no_tags[OF zone a]] finish_others
            finish_currentUsage finish_percentUsed initialResult_fields)
  qed
  have all: "zoneTags product = Some zs \<and> zs \<noteq> [] \<and> (\<forall>z\<in>set zs. responds (outcome z)) \<longrightarrow>
            error r = None \<and> currentUsage r = transformedUsage product (sum_list (map usage zs))
            \<and> issued = map request zs"
  proof
    assume a: "zoneTags product = Some zs \<and> zs \<noteq> [] \<and> (\<forall>z\<in>set zs. responds (outcome z))"
    then have t: "zoneTags product = Some zs" "zs \<noteq> []"
      and resp: "\<forall>z\<in>set zs. responds (zoneOutcome env tok product filters (boundDate product bs)
                   (boundDate product be) z)"
      by (simp_all add: outcome_def)
    show "error r = None \<and> currentUsage r = transformedUsage product (sum_list (map usage zs))
            \<and> issued = map request zs"
      unfolding r_def issued_def usage_def request_def
      by (simp add: queryProductUsage_via_try[OF try_zone_all_respond[OF zone t resp]] finish_others
            finish_currentUsage initialResult_fields split: option.splits)
  qed
  have errs: "outcome z' = Inr response \<and> hasErrors response \<longrightarrow> usage z' = 0"
    by (simp add: usage_def outcome_def zoneValue_def zoneExtracted_def)
  have throws: "zoneTags product = Some (pre @ z # post) \<and> (\<forall>z\<in>set pre. responds (outcome z))
          \<and> outcome z = Inl (Exception msg) \<longrightarrow>
            error r = Some msg \<and> currentUsage r = sum_list (map usage pre) \<and> percentUsed r = 0
            \<and> issued = map request (pre @ [z])"
  proof
    assume a: "zoneTags product = Some (pre @ z # post) \<and> (\<forall>z\<in>set pre. responds (outcome z))
          \<and> outcome z = Inl (Exception msg)"
    then have t: "zoneTags product = Some (pre @ z # post)"
      and resp: "\<forall>z\<in>set pre. responds (zoneOutcome env tok product filters (boundDate product bs)
                   (boundDate product be) z)"
      and th: "zoneOutcome env tok product filters (boundDate product bs) (boundDate product be) z
                 = Inl (Exception msg)"
      by (simp_all add: outcome_def)
    show "error r = Some msg \<and> currentUsage r = sum_list (map usage pre) \<and> percentUsed r = 0
            \<and> issued = map request (pre @ [z])"
      unfolding r_def issued_def usage_def request_def
      by (simp add: queryProductUsage_via_try[OF try_zone_throws[OF zone t resp th]]
            initialResult_fields)
  qed
  from none all errs throws show ?thesis by (intro conjI)
qed

theorem zone_fanout_witness:
  "scope_p (zarazOn []) = Zone \<and> zoneTags (zarazOn []) = Some []
   \<and> error (fst (queryProductUsage exampleEnv ''token'' ''account'' (zarazOn []) exampleStart exampleEnd None))
       = Some ''No zone tags configured''
   \<and> snd (queryProductUsage exampleEnv ''token'' ''account'' (zarazOn []) exampleStart exampleEnd None) = []
   \<and> zoneTags (zarazOn [''Z1'', ''Z3'', ''Z4'']) = Some [''Z1'', ''Z3'', ''Z4'']
   \<and> list_all
         (\<lambda>z. responds (zoneOutcome exampleEnv ''token'' (zarazOn [''Z1'', ''Z3'', ''Z4'']) None
           (boundDate (zarazOn [''Z1'', ''Z3'', ''Z4'']) exampleStart)
           (boundDate (zarazOn [''Z1'', ''Z3'', ''Z4'']) exampleEnd) z))
         [''Z1'', ''Z3'', ''Z4'']
   \<and> hasErrors \<lparr>data_g = None, errors_g = Some [''unknown field'']\<rparr>
   \<and> error (fst (queryProductUsage exampleEnv ''token'' ''account'' (zarazOn [''Z1'', ''Z3'', ''Z4''])
         exampleStart exampleEnd None)) = None
   \<and> currentUsage (fst (queryProductUsage exampleEnv ''token'' ''account'' (zarazOn [''Z1'', ''Z3'', ''Z4''])
         exampleStart exampleEnd None)) = 300
   \<and> zoneTags (zarazOn [''Z1'', ''Z2'']) = Some ([''Z1''] @ ''Z2'' # [])
   \<and> error (fst (queryProductUsage exampleEnv ''token'' ''account'' (zarazOn [''Z1'', ''Z2''])
         exampleStart exampleEnd None)) = Some ''GraphQL request failed: 500 Internal Server Error''
   \<and> currentUsage (fst (queryProductUsage exampleEnv ''token'' ''account'' (zarazOn [''Z1'', ''Z2''])
         exampleStart exampleEnd None)) = 100
   \<and> percentUsed (fst (queryProductUsage exampleEnv ''token'' ''account'' (zarazOn [''Z1'', ''Z2''])
         exampleStart exampleEnd None)) = 0"
  using zone_fanout [where product = "zarazOn []" and env = exampleEnv and tok = "''token''"
          and acc = "''account''" and bs = exampleStart and be = exampleEnd and filters = None]
        zone_fanout [where product = "zarazOn [''Z1'', ''Z3'', ''Z4'']" and env = exampleEnv
          and tok = "''token''" and acc = "''account''" and bs = exampleStart and be = exampleEnd
          and filters = None and zs = "[''Z1'', ''Z3'', ''Z4'']" and z' = "''Z3''"
          and response = "\<lparr>data_g = None, errors_g = Some [''unknown field'']\<rparr>"]
        zone_fanout [where product = "zarazOn [''Z1'', ''Z2'']" and env = exampleEnv
          and tok = "''token''" and acc = "''account''" and bs = exampleStart and be = exampleEnd
          and filters = None and pre = "[''Z1'']" and z = "''Z2''" and post = "[]"
          and msg = "''GraphQL request failed: 500 Internal Server Error''"]
  by (simp add: zarazOn_fields example_responds example_zone_outcomes example_zone_values
        transformedUsage_def hasErrors_def responds_def)

text \<open>
  The claim as stated fails: with zones \<open>Z1\<close> (answered, 100 events) and \<open>Z2\<close> (throws)
  the error is set although \<open>Z1\<close> did not fail; with the zones in the order \<open>Z2\<close>,
  \<open>Z1\<close> the usage of \<open>Z1\<close> is not kept.
\<close>

theorem zone_fanout_counterexample:
  "responds (zoneOutcome exampleEnv ''token'' (zarazOn [''Z1'', ''Z2'']) None
      (boundDate (zarazOn [''Z1'', ''Z2'']) exampleStart)
      (boundDate (zarazOn [''Z1'', ''Z2'']) exampleEnd) ''Z1'')
   \<and> error (fst (queryProductUsage exampleEnv ''token'' ''account'' (zarazOn [''Z1'', ''Z2''])
         exampleStart exampleEnd None)) \<noteq> None
   \<and> zoneValue exampleEnv ''token'' (zarazOn [''Z2'', ''Z1'']) None
        (boundDate (zarazOn [''Z2'', ''Z1'']) exampleStart)
        (boundDate (zarazOn [''Z2'', ''Z1'']) exampleEnd) ''Z1'' = 100
   \<and> currentUsage (fst (queryProductUsage exampleEnv ''token'' ''account'' (zarazOn [''Z2'', ''Z1''])
         exampleStart exampleEnd None)) = 0"
  by (simp add: example_responds example_throwing_result example_throwing_first_result
        example_zone_values initialResult_fields)


subsection \<open>Percentage used\<close>

text \<open>
  Claim C3, as amended. The record that \<open>queryProductUsage\<close> returns carries the limit
  and the \<open>unlimited\<close> flag of the product. Its \<open>percentUsed\<close> is 0 when the limit is
  not above 0 (in particular when the limit is 0: no division takes place), and it is 0
  when an exception left the \<open>try\<close> block, whatever usage had been summed by then. When
  no exception was raised, the limit is above 0 and the product is not unlimited,
  \<open>percentUsed = currentUsage / limit * 100\<close>. Nothing is stated for an unlimited product
  with a limit above 0.
\<close>

theorem percentUsed_of_result:
  fixes env tok acc product bs be filters
  defines "r \<equiv> fst (queryProductUsage env tok acc product bs be filters)"
    and "thrown \<equiv> fst (queryProductUsage_try env tok acc product bs be filters (initialResult product bs be))"
  shows "limit r = limit_p product \<and> unlimited r = unlimited_p product
    \<and> (limit_p product \<le> 0 \<longrightarrow> percentUsed r = 0)
    \<and> (thrown \<noteq> None \<longrightarrow> percentUsed r = 0)
    \<and> (thrown = None \<and> 0 < limit_p product \<and> unlimited_p product \<noteq> Some True
          \<longrightarrow> percentUsed r = currentUsage r / limit r * 100)"
proof -
  obtain th r0 tr where
    t: "queryProductUsage_try env tok acc product bs be filters (initialResult product bs be)
       = (th, (if th = None then calculatePercentage product (applyTransform product r0) else r0), tr)"
    and f: "percentUsed r0 = 0" "limit r0 = limit_p product" "unlimited r0 = unlimited_p product"
    using try_outcome[of env tok acc product bs be filters "initialResult product bs be"]
    by (auto simp: initialResult_fields)
  have th: "thrown = th" by (simp add: thrown_def t)
  show ?thesis
  proof (cases th)
    case None
    with t have "r = (calculatePercentage product (applyTransform product r0))\<lparr>queryDurationMs := Some (elapsed env (id_p product))\<rparr>"
      by (simp add: r_def queryProductUsage_via_try[OF t])
    with None f th show ?thesis
      by (simp add: calculatePercentage_fields finish_others)
  next
    case (Some ex)
    obtain msg where "ex = Exception msg" by (cases ex)
    with Some t have "r = r0\<lparr>error := Some msg, queryDurationMs := Some (elapsed env (id_p product))\<rparr>"
      by (simp add: r_def queryProductUsage_via_try[OF t])
    with Some f th show ?thesis by simp
  qed
qed

theorem percentUsed_of_result_witness:
  "fst (queryProductUsage_try exampleEnv ''token'' ''account'' (zarazOn [''Z1'', ''Z3'', ''Z4''])
          exampleStart exampleEnd None
          (initialResult (zarazOn [''Z1'', ''Z3'', ''Z4'']) exampleStart exampleEnd)) = None
   \<and> 0 < limit_p (zarazOn [''Z1'', ''Z3'', ''Z4''])
   \<and> unlimited_p (zarazOn [''Z1'', ''Z3'', ''Z4'']) \<noteq> Some True
   \<and> percentUsed (fst (queryProductUsage exampleEnv ''token'' ''account''
         (zarazOn [''Z1'', ''Z3'', ''Z4'']) exampleStart exampleEnd None)) = 300 / 1000 * 100
   \<and> fst (queryProductUsage_try exampleEnv ''token'' ''account'' (zarazOn [''Z1'', ''Z2''])
          exampleStart exampleEnd None
          (initialResult (zarazOn [''Z1'', ''Z2'']) exampleStart exampleEnd)) \<noteq> None
   \<and> percentUsed (fst (queryProductUsage exampleEnv ''token'' ''account''
         (zarazOn [''Z1'', ''Z2'']) exampleStart exampleEnd None)) = 0
   \<and> limit_p (mergeProductConfig tunnel_requests None None) \<le> 0
   \<and> percentUsed (fst (queryProductUsage exampleEnv ''token'' ''account''
         (mergeProductConfig tunnel_requests None None) exampleStart exampleEnd None)) = 0"
  using percentUsed_of_result [of exampleEnv "''token''" "''account''" "zarazOn [''Z1'', ''Z3'', ''Z4'']"
          exampleStart exampleEnd None]
        percentUsed_of_result [of exampleEnv "''token''" "''account''" "zarazOn [''Z1'', ''Z2'']"
          exampleStart exampleEnd None]
        percentUsed_of_result [of exampleEnv "''token''" "''account''"
          "mergeProductConfig tunnel_requests None None" exampleStart exampleEnd None]
        try_zone_all_respond[of "zarazOn [''Z1'', ''Z3'', ''Z4'']" "[''Z1'', ''Z3'', ''Z4'']" exampleEnv
          "''token''" None exampleStart exampleEnd "''account''"
          "initialResult (zarazOn [''Z1'', ''Z3'', ''Z4'']) exampleStart exampleEnd"]
  by (simp add: zarazOn_fields example_responds example_throwing_try example_responding_result
        initialResult_fields mergeProductConfig_def tunnel_requests_def ProductDefinition.defs
        ProductRuntime.defs)

text \<open>
  The claim as stated fails: after \<open>Z1\<close> gave 100 events and \<open>Z2\<close> threw, the record
  has \<open>currentUsage = 100\<close>, limit 1000 and \<open>percentUsed = 0\<close>; and the unlimited tunnel
  product with a limit of 100 and 50 requests has \<open>percentUsed = 50\<close>.
\<close>

theorem percentUsed_counterexample:
  "0 < limit (fst (queryProductUsage exampleEnv ''token'' ''account'' (zarazOn [''Z1'', ''Z2''])
                exampleStart exampleEnd None))
   \<and> unlimited (fst (queryProductUsage exampleEnv ''token'' ''account'' (zarazOn [''Z1'', ''Z2''])
                exampleStart exampleEnd None)) \<noteq> Some True
   \<and> percentUsed (fst (queryProductUsage exampleEnv ''token'' ''account'' (zarazOn [''Z1'', ''Z2''])
                exampleStart exampleEnd None))
       \<noteq> currentUsage (fst (queryProductUsage exampleEnv ''token'' ''account'' (zarazOn [''Z1'', ''Z2''])
                exampleStart exampleEnd None))
         / limit (fst (queryProductUsage exampleEnv ''token'' ''account'' (zarazOn [''Z1'', ''Z2''])
                exampleStart exampleEnd None)) * 100
   \<and> unlimited (fst (queryProductUsage exampleEnv ''token'' ''account'' tunnelWithLimit
                exampleStart exampleEnd None)) = Some True
   \<and> percentUsed (fst (queryProductUsage exampleEnv ''token'' ''account'' tunnelWithLimit
                exampleStart exampleEnd None)) \<noteq> 0"
  by (simp add: example_throwing_result example_tunnel_result initialResult_fields zarazOn_fields
        tunnelWithLimit_fields)



subsection \<open>Result normalisation\<close>

lemma noValue_fields: "value_e noValue = 0" "confidence_e noValue = None"
  by (simp_all add: noValue_def)

lemma transformedUsage_only_when:
  "transformedUsage product x \<noteq> x \<Longrightarrow> transform product \<noteq> None \<and> x \<noteq> 0"
  by (auto simp: transformedUsage_def split: option.splits if_splits)

lemma transformedUsage_nonnegative:
  "0 \<le> x \<Longrightarrow> transformedUsage product x
      = (case transform product of Some f \<Rightarrow> (if x \<noteq> 0 then f x else x) | None \<Rightarrow> x)"
  by (auto simp: transformedUsage_def split: option.splits)

lemma account_result_no_errors:
  assumes "scope_p product = Account"
    and "accountOutcome env tok acc product filters (boundDate product bs) (boundDate product be) = Inr response"
    and "\<not> hasErrors response"
  shows "fst (queryProductUsage env tok acc product bs be filters)
     = (calculatePercentage product (applyTransform product
          ((initialResult product bs be)
             \<lparr>currentUsage := value_e (extractValue (data_g response) (dataset product) (field_p product)
                                 (aggregationOf product) Account),
              confidence := confidence_e (extractValue (data_g response) (dataset product)
                                 (field_p product) (aggregationOf product) Account)\<rparr>)))
         \<lparr>queryDurationMs := Some (elapsed env (id_p product))\<rparr>"
  using assms by (simp add: queryProductUsage_def try_account)


lemma workersCpuTime_fields:
  "scope_p workersCpuTime = Account" "limit_p workersCpuTime = 30000000"
  "dataset workersCpuTime = ''workersInvocationsAdaptive''" "field_p workersCpuTime = ''cpuTimeUs''"
  "aggregationOf workersCpuTime = AggSum" "transform workersCpuTime = Some (\<lambda>us. us / 1000)"
  "unlimited_p workersCpuTime = None" "id_p workersCpuTime = ''workers_cpu_time''"
  by (simp_all add: workersCpuTime_def mergeProductConfig_def workers_cpu_time_def aggregationOf_def
        ProductDefinition.defs ProductRuntime.defs)




lemma itemValue_explicit:
  "itemValue AggCount field = (\<lambda>item. case count_i item of Some n \<Rightarrow> n | None \<Rightarrow> 0)"
  "itemValue AggSum field = (\<lambda>item. case sum_i item of
                                       Some m \<Rightarrow> (case map_of m field of Some x \<Rightarrow> x | None \<Rightarrow> 0)
                                     | None \<Rightarrow> 0)"
  "itemValue AggAvg field = (\<lambda>item. case avg_i item of
                                       Some m \<Rightarrow> (case map_of m field of Some x \<Rightarrow> x | None \<Rightarrow> 0)
                                     | None \<Rightarrow> 0)"
  "itemValue AggMax field = (\<lambda>item. case max_i item of
                                       Some m \<Rightarrow> (case map_of m field of Some x \<Rightarrow> x | None \<Rightarrow> 0)
                                     | None \<Rightarrow> 0)"
  by (auto simp: fun_eq_iff orZero_def split: option.splits)

text \<open>
  Claim C7. When the payload has the expected shape, the value is the sum over all
  rows of the result array of the requested aggregate: the \<open>count\<close> of the row for
  \<open>count\<close>, and the entry of the field under \<open>sum\<close>, \<open>avg\<close> or \<open>max\<close> of the row for
  the other three, an absent one counting as 0. When the scope array or the
  result array is absent or empty, the result is the value 0 with no confidence. When
  the payload, the viewer, the first scope entry or a row is \<open>null\<close> or absent, the
  exception is caught and the result is again the value 0 with no confidence. For an
  account-scoped product whose response carries no errors, the record has no error and
  its usage is the extracted value after the transform, which is applied only when it
  is defined and the value is not 0 (for a value that is not negative: exactly then).
\<close>

theorem extractValue_normalisation:
  "(viewer d = Some v
      \<and> (if sc = Zone then zones v else accounts v) = Some (Some entry # others)
      \<and> map_of entry ds = Some (map Some items)
     \<longrightarrow> value_e (extractValue (Some d) ds field agg sc) = sum_list (map (itemValue agg field) items)
         \<and> value_e (extractValue (Some d) ds field AggCount sc)
             = sum_list (map (\<lambda>item. case count_i item of Some n \<Rightarrow> n | None \<Rightarrow> 0) items)
         \<and> value_e (extractValue (Some d) ds field AggSum sc)
             = sum_list (map (\<lambda>item. case sum_i item of
                                       Some m \<Rightarrow> (case map_of m field of Some x \<Rightarrow> x | None \<Rightarrow> 0)
                                     | None \<Rightarrow> 0) items)
         \<and> value_e (extractValue (Some d) ds field AggAvg sc)
             = sum_list (map (\<lambda>item. case avg_i item of
                                       Some m \<Rightarrow> (case map_of m field of Some x \<Rightarrow> x | None \<Rightarrow> 0)
                                     | None \<Rightarrow> 0) items)
         \<and> value_e (extractValue (Some d) ds field AggMax sc)
             = sum_list (map (\<lambda>item. case max_i item of
                                       Some m \<Rightarrow> (case map_of m field of Some x \<Rightarrow> x | None \<Rightarrow> 0)
                                     | None \<Rightarrow> 0) items))
   \<and> (viewer d = Some v
      \<and> ((if sc = Zone then zones v else accounts v) = None
         \<or> (if sc = Zone then zones v else accounts v) = Some []
         \<or> (\<exists>entry others. (if sc = Zone then zones v else accounts v) = Some (Some entry # others)
               \<and> (map_of entry ds = None \<or> map_of entry ds = Some [])))
     \<longrightarrow> extractValue (Some d) ds field agg sc = \<lparr>value_e = 0, confidence_e = None\<rparr>)
   \<and> (dat = None
         \<or> (\<exists>d. dat = Some d \<and> viewer d = None)
         \<or> (\<exists>d v others. dat = Some d \<and> viewer d = Some v
               \<and> (if sc = Zone then zones v else accounts v) = Some (None # others))
         \<or> (\<exists>d v entry others rows. dat = Some d \<and> viewer d = Some v
               \<and> (if sc = Zone then zones v else accounts v) = Some (Some entry # others)
               \<and> map_of entry ds = Some rows \<and> None \<in> set rows)
     \<longrightarrow> (\<exists>e. extractValue_try dat ds field agg sc = Inl e)
         \<and> extractValue dat ds field agg sc = \<lparr>value_e = 0, confidence_e = None\<rparr>)
   \<and> (scope_p product = Account
      \<and> accountOutcome env tok acc product filters (boundDate product bs) (boundDate product be)
          = Inr response
      \<and> \<not> hasErrors response
     \<longrightarrow> error (fst (queryProductUsage env tok acc product bs be filters)) = None
         \<and> currentUsage (fst (queryProductUsage env tok acc product bs be filters))
             = transformedUsage product
                 (value_e (extractValue (data_g response) (dataset product) (field_p product)
                    (aggregationOf product) Account)))
   \<and> (transformedUsage product x \<noteq> x \<longrightarrow> transform product \<noteq> None \<and> x \<noteq> 0)
   \<and> (0 \<le> x \<longrightarrow> transformedUsage product x
         = (case transform product of Some f \<Rightarrow> (if x \<noteq> 0 then f x else x) | None \<Rightarrow> x))"
proof -
  have rows: "viewer d = Some v
      \<and> (if sc = Zone then zones v else accounts v) = Some (Some entry # others)
      \<and> map_of entry ds = Some (map Some items)
     \<longrightarrow> value_e (extractValue (Some d) ds field agg sc) = sum_list (map (itemValue agg field) items)
         \<and> value_e (extractValue (Some d) ds field AggCount sc)
             = sum_list (map (\<lambda>item. case count_i item of Some n \<Rightarrow> n | None \<Rightarrow> 0) items)
         \<and> value_e (extractValue (Some d) ds field AggSum sc)
             = sum_list (map (\<lambda>item. case sum_i item of
                                       Some m \<Rightarrow> (case map_of m field of Some x \<Rightarrow> x | None \<Rightarrow> 0)
                                     | None \<Rightarrow> 0) items)
         \<and> value_e (extractValue (Some d) ds field AggAvg sc)
             = sum_list (map (\<lambda>item. case avg_i item of
                                       Some m \<Rightarrow> (case map_of m field of Some x \<Rightarrow> x | None \<Rightarrow> 0)
                                     | None \<Rightarrow> 0) items)
         \<and> value_e (extractValue (Some d) ds field AggMax sc)
             = sum_list (map (\<lambda>item. case max_i item of
                                       Some m \<Rightarrow> (case map_of m field of Some x \<Rightarrow> x | None \<Rightarrow> 0)
                                     | None \<Rightarrow> 0) items)"
    by (simp add: extractValue_rows itemValue_explicit)
  have absent: "viewer d = Some v
      \<and> ((if sc = Zone then zones v else accounts v) = None
         \<or> (if sc = Zone then zones v else accounts v) = Some []
         \<or> (\<exists>entry others. (if sc = Zone then zones v else accounts v) = Some (Some entry # others)
               \<and> (map_of entry ds = None \<or> map_of entry ds = Some [])))
     \<longrightarrow> extractValue (Some d) ds field agg sc = \<lparr>value_e = 0, confidence_e = None\<rparr>"
    using extractValue_absent[of d v sc ds field agg] by (simp add: noValue_def)
  have mismatch: "dat = None
         \<or> (\<exists>d. dat = Some d \<and> viewer d = None)
         \<or> (\<exists>d v others. dat = Some d \<and> viewer d = Some v
               \<and> (if sc = Zone then zones v else accounts v) = Some (None # others))
         \<or> (\<exists>d v entry others rows. dat = Some d \<and> viewer d = Some v
               \<and> (if sc = Zone then zones v else accounts v) = Some (Some entry # others)
               \<and> map_of entry ds = Some rows \<and> None \<in> set rows)
     \<longrightarrow> (\<exists>e. extractValue_try dat ds field agg sc = Inl e)
         \<and> extractValue dat ds field agg sc = \<lparr>value_e = 0, confidence_e = None\<rparr>"
    using extractValue_mismatch[of dat sc ds field agg] by (simp add: noValue_def)
  have account: "scope_p product = Account
      \<and> accountOutcome env tok acc product filters (boundDate product bs) (boundDate product be)
          = Inr response
      \<and> \<not> hasErrors response
     \<longrightarrow> error (fst (queryProductUsage env tok acc product bs be filters)) = None
         \<and> currentUsage (fst (queryProductUsage env tok acc product bs be filters))
             = transformedUsage product
                 (value_e (extractValue (data_g response) (dataset product) (field_p product)
                    (aggregationOf product) Account))"
    by (simp add: account_result_no_errors finish_others finish_currentUsage initialResult_fields)
  have only_when: "transformedUsage product x \<noteq> x \<longrightarrow> transform product \<noteq> None \<and> x \<noteq> 0"
    using transformedUsage_only_when by blast
  have exactly: "0 \<le> x \<longrightarrow> transformedUsage product x
         = (case transform product of Some f \<Rightarrow> (if x \<noteq> 0 then f x else x) | None \<Rightarrow> x)"
    using transformedUsage_nonnegative by blast
  from rows absent mismatch account only_when exactly show ?thesis by (intro conjI)
qed

theorem extractValue_normalisation_witness:
  "viewer exampleAccountPayload = Some
      \<lparr>zones = None,
       accounts = Some [Some
         [(''workersInvocationsAdaptive'', [Some (cpuRow 30000), Some (cpuRow 20000)]),
          (''cloudflareTunnelsAnalyticsAdaptiveGroups'',
           [Some \<lparr>count_i = Some 50, sum_i = None, avg_i = None, max_i = None,
                   confidence_i = None\<rparr>])]]\<rparr>
   \<and> value_e (extractValue (Some exampleAccountPayload) ''workersInvocationsAdaptive''
        ''cpuTimeUs'' AggSum Account) = 30000 + 20000
   \<and> viewer exampleStoragePayload = Some
      \<lparr>zones = None,
       accounts = Some [Some [(''r2StorageAdaptiveGroups'', map Some exampleStorageRows)]]\<rparr>
   \<and> value_e (extractValue (Some exampleStoragePayload) ''r2StorageAdaptiveGroups''
        ''payloadSize'' AggCount Account) = 2 + 0
   \<and> value_e (extractValue (Some exampleStoragePayload) ''r2StorageAdaptiveGroups''
        ''payloadSize'' AggSum Account) = 10 + 0
   \<and> value_e (extractValue (Some exampleStoragePayload) ''r2StorageAdaptiveGroups''
        ''payloadSize'' AggAvg Account) = 5 + 0
   \<and> value_e (extractValue (Some exampleStoragePayload) ''r2StorageAdaptiveGroups''
        ''payloadSize'' AggMax Account) = 7 + 4
   \<and> extractValue (Some exampleAccountPayload) ''r2OperationsAdaptiveGroups'' ''requests'' AggSum
        Account = \<lparr>value_e = 0, confidence_e = None\<rparr>
   \<and> extractValue None ''workersInvocationsAdaptive'' ''cpuTimeUs'' AggSum Account
        = \<lparr>value_e = 0, confidence_e = None\<rparr>
   \<and> scope_p workersCpuTime = Account
   \<and> \<not> hasErrors \<lparr>data_g = Some exampleAccountPayload, errors_g = None\<rparr>
   \<and> error (fst (queryProductUsage exampleEnv ''token'' ''account'' workersCpuTime
        exampleStart exampleEnd None)) = None
   \<and> currentUsage (fst (queryProductUsage exampleEnv ''token'' ''account'' workersCpuTime
        exampleStart exampleEnd None)) = 50
   \<and> transformedUsage workersCpuTime 50000 \<noteq> 50000
   \<and> transform workersCpuTime \<noteq> None
   \<and> transformedUsage workersCpuTime 0 = 0"
proof -
  let ?entry = "[(''workersInvocationsAdaptive'', [Some (cpuRow 30000), Some (cpuRow 20000)]),
          (''cloudflareTunnelsAnalyticsAdaptiveGroups'',
           [Some \<lparr>count_i = Some 50, sum_i = None, avg_i = None, max_i = None,
                   confidence_i = None\<rparr>])]"
  let ?v = "\<lparr>zones = None, accounts = Some [Some ?entry]\<rparr>"
  let ?sentry = "[(''r2StorageAdaptiveGroups'', map Some exampleStorageRows)]"
  let ?sv = "\<lparr>zones = None, accounts = Some [Some ?sentry]\<rparr>"
  let ?resp = "\<lparr>data_g = Some exampleAccountPayload, errors_g = None\<rparr>"
  note a = extractValue_normalisation
          [where d = exampleAccountPayload and sc = Account and v = ?v and entry = ?entry
             and others = "[]" and ds = "''workersInvocationsAdaptive''"
             and items = "[cpuRow 30000, cpuRow 20000]" and field = "''cpuTimeUs''" and agg = AggSum
             and dat = None and product = workersCpuTime and env = exampleEnv and tok = "''token''"
             and acc = "''account''" and filters = None and bs = exampleStart and be = exampleEnd
             and response = ?resp and x = 50000]
  note b = extractValue_normalisation
          [where d = exampleAccountPayload and sc = Account and v = ?v and entry = ?entry
             and others = "[]" and items = "[]"
             and ds = "''r2OperationsAdaptiveGroups''" and field = "''requests''" and agg = AggSum
             and dat = None and product = workersCpuTime and env = exampleEnv and tok = "''token''"
             and acc = "''account''" and filters = None and bs = exampleStart and be = exampleEnd
             and response = ?resp and x = 0]
  note c = extractValue_normalisation
          [where d = exampleStoragePayload and sc = Account and v = ?sv and entry = ?sentry
             and others = "[]" and ds = "''r2StorageAdaptiveGroups''" and items = exampleStorageRows
             and field = "''payloadSize''" and agg = AggMax
             and dat = None and product = workersCpuTime and env = exampleEnv and tok = "''token''"
             and acc = "''account''" and filters = None and bs = exampleStart and be = exampleEnd
             and response = ?resp and x = 0]
  have shape: "viewer exampleAccountPayload = Some ?v" "viewer exampleStoragePayload = Some ?sv"
    by (simp_all add: exampleAccountPayload_def exampleStoragePayload_def)
  from a have "viewer exampleAccountPayload = Some ?v
      \<and> (if Account = Zone then zones ?v else accounts ?v) = Some (Some ?entry # [])
      \<and> map_of ?entry ''workersInvocationsAdaptive'' = Some (map Some [cpuRow 30000, cpuRow 20000])
     \<longrightarrow> value_e (extractValue (Some exampleAccountPayload) ''workersInvocationsAdaptive''
            ''cpuTimeUs'' AggSum Account)
           = sum_list (map (itemValue AggSum ''cpuTimeUs'') [cpuRow 30000, cpuRow 20000])
         \<and> value_e (extractValue (Some exampleAccountPayload) ''workersInvocationsAdaptive''
              ''cpuTimeUs'' AggCount Account)
             = sum_list (map (\<lambda>item. case count_i item of Some n \<Rightarrow> n | None \<Rightarrow> 0)
                  [cpuRow 30000, cpuRow 20000])
         \<and> value_e (extractValue (Some exampleAccountPayload) ''workersInvocationsAdaptive''
              ''cpuTimeUs'' AggSum Account)
             = sum_list (map (\<lambda>item. case sum_i item of
                                       Some m \<Rightarrow> (case map_of m ''cpuTimeUs'' of Some x \<Rightarrow> x | None \<Rightarrow> 0)
                                     | None \<Rightarrow> 0) [cpuRow 30000, cpuRow 20000])
         \<and> value_e (extractValue (Some exampleAccountPayload) ''workersInvocationsAdaptive''
              ''cpuTimeUs'' AggAvg Account)
             = sum_list (map (\<lambda>item. case avg_i item of
                                       Some m \<Rightarrow> (case map_of m ''cpuTimeUs'' of Some x \<Rightarrow> x | None \<Rightarrow> 0)
                                     | None \<Rightarrow> 0) [cpuRow 30000, cpuRow 20000])
         \<and> value_e (extractValue (Some exampleAccountPayload) ''workersInvocationsAdaptive''
              ''cpuTimeUs'' AggMax Account)
             = sum_list (map (\<lambda>item. case max_i item of
                                       Some m \<Rightarrow> (case map_of m ''cpuTimeUs'' of Some x \<Rightarrow> x | None \<Rightarrow> 0)
                                     | None \<Rightarrow> 0) [cpuRow 30000, cpuRow 20000])"
    by (elim conjE)
  with shape have rows: "value_e (extractValue (Some exampleAccountPayload) ''workersInvocationsAdaptive''
        ''cpuTimeUs'' AggSum Account) = 30000 + 20000"
    by (simp add: cpuRow_def)
  from c have "viewer exampleStoragePayload = Some ?sv
      \<and> (if Account = Zone then zones ?sv else accounts ?sv) = Some (Some ?sentry # [])
      \<and> map_of ?sentry ''r2StorageAdaptiveGroups'' = Some (map Some exampleStorageRows)
     \<longrightarrow> value_e (extractValue (Some exampleStoragePayload) ''r2StorageAdaptiveGroups''
            ''payloadSize'' AggMax Account)
           = sum_list (map (itemValue AggMax ''payloadSize'') exampleStorageRows)
         \<and> value_e (extractValue (Some exampleStoragePayload) ''r2StorageAdaptiveGroups''
              ''payloadSize'' AggCount Account)
             = sum_list (map (\<lambda>item. case count_i item of Some n \<Rightarrow> n | None \<Rightarrow> 0)
                  exampleStorageRows)
         \<and> value_e (extractValue (Some exampleStoragePayload) ''r2StorageAdaptiveGroups''
              ''payloadSize'' AggSum Account)
             = sum_list (map (\<lambda>item. case sum_i item of
                                       Some m \<Rightarrow> (case map_of m ''payloadSize'' of Some x \<Rightarrow> x | None \<Rightarrow> 0)
                                     | None \<Rightarrow> 0) exampleStorageRows)
         \<and> value_e (extractValue (Some exampleStoragePayload) ''r2StorageAdaptiveGroups''
              ''payloadSize'' AggAvg Account)
             = sum_list (map (\<lambda>item. case avg_i item of
                                       Some m \<Rightarrow> (case map_of m ''payloadSize'' of Some x \<Rightarrow> x | None \<Rightarrow> 0)
                                     | None \<Rightarrow> 0) exampleStorageRows)
         \<and> value_e (extractValue (Some exampleStoragePayload) ''r2StorageAdaptiveGroups''
              ''payloadSize'' AggMax Account)
             = sum_list (map (\<lambda>item. case max_i item of
                                       Some m \<Rightarrow> (case map_of m ''payloadSize'' of Some x \<Rightarrow> x | None \<Rightarrow> 0)
                                     | None \<Rightarrow> 0) exampleStorageRows)"
    by (elim conjE)
  with shape have storage:
    "value_e (extractValue (Some exampleStoragePayload) ''r2StorageAdaptiveGroups''
        ''payloadSize'' AggCount Account) = 2 + 0"
    "value_e (extractValue (Some exampleStoragePayload) ''r2StorageAdaptiveGroups''
        ''payloadSize'' AggSum Account) = 10 + 0"
    "value_e (extractValue (Some exampleStoragePayload) ''r2StorageAdaptiveGroups''
        ''payloadSize'' AggAvg Account) = 5 + 0"
    "value_e (extractValue (Some exampleStoragePayload) ''r2StorageAdaptiveGroups''
        ''payloadSize'' AggMax Account) = 7 + 4"
    by (simp_all add: exampleStorageRows_def)
  from b have "viewer exampleAccountPayload = Some ?v
      \<and> ((if Account = Zone then zones ?v else accounts ?v) = None
         \<or> (if Account = Zone then zones ?v else accounts ?v) = Some []
         \<or> (\<exists>entry others. (if Account = Zone then zones ?v else accounts ?v) = Some (Some entry # others)
               \<and> (map_of entry ''r2OperationsAdaptiveGroups'' = None
                    \<or> map_of entry ''r2OperationsAdaptiveGroups'' = Some [])))
     \<longrightarrow> extractValue (Some exampleAccountPayload) ''r2OperationsAdaptiveGroups'' ''requests'' AggSum
           Account = \<lparr>value_e = 0, confidence_e = None\<rparr>"
    by (elim conjE)
  with shape have absent: "extractValue (Some exampleAccountPayload) ''r2OperationsAdaptiveGroups''
        ''requests'' AggSum Account = \<lparr>value_e = 0, confidence_e = None\<rparr>"
    by simp
  from a have "(None :: Payload option) = None
         \<or> (\<exists>d::Payload. None = Some d \<and> viewer d = None)
         \<or> (\<exists>(d::Payload) v others. None = Some d \<and> viewer d = Some v
               \<and> (if Account = Zone then zones v else accounts v) = Some (None # others))
         \<or> (\<exists>(d::Payload) v entry others rows. None = Some d \<and> viewer d = Some v
               \<and> (if Account = Zone then zones v else accounts v) = Some (Some entry # others)
               \<and> map_of entry ''workersInvocationsAdaptive'' = Some rows \<and> None \<in> set rows)
     \<longrightarrow> (\<exists>e. extractValue_try None ''workersInvocationsAdaptive'' ''cpuTimeUs'' AggSum Account = Inl e)
         \<and> extractValue None ''workersInvocationsAdaptive'' ''cpuTimeUs'' AggSum Account
             = \<lparr>value_e = 0, confidence_e = None\<rparr>"
    by (elim conjE)
  then have mismatch: "extractValue None ''workersInvocationsAdaptive'' ''cpuTimeUs'' AggSum Account
        = \<lparr>value_e = 0, confidence_e = None\<rparr>"
    by simp
  have hyps: "scope_p workersCpuTime = Account" "\<not> hasErrors ?resp"
    "accountOutcome exampleEnv ''token'' ''account'' workersCpuTime None
       (boundDate workersCpuTime exampleStart) (boundDate workersCpuTime exampleEnd) = Inr ?resp"
    by (simp_all add: workersCpuTime_fields hasErrors_def example_account_outcome)
  from a have "scope_p workersCpuTime = Account
      \<and> accountOutcome exampleEnv ''token'' ''account'' workersCpuTime None
            (boundDate workersCpuTime exampleStart) (boundDate workersCpuTime exampleEnd)
          = Inr ?resp
      \<and> \<not> hasErrors ?resp
     \<longrightarrow> error (fst (queryProductUsage exampleEnv ''token'' ''account'' workersCpuTime
              exampleStart exampleEnd None)) = None
         \<and> currentUsage (fst (queryProductUsage exampleEnv ''token'' ''account'' workersCpuTime
              exampleStart exampleEnd None))
             = transformedUsage workersCpuTime
                 (value_e (extractValue (data_g ?resp) (dataset workersCpuTime) (field_p workersCpuTime)
                    (aggregationOf workersCpuTime) Account))"
    by (elim conjE)
  with hyps have account:
    "error (fst (queryProductUsage exampleEnv ''token'' ''account'' workersCpuTime
        exampleStart exampleEnd None)) = None"
    "currentUsage (fst (queryProductUsage exampleEnv ''token'' ''account'' workersCpuTime
        exampleStart exampleEnd None)) = 50"
    by (simp_all add: workersCpuTime_fields example_account_extract transformedUsage_def)
  have transformed: "transformedUsage workersCpuTime 50000 \<noteq> 50000"
    "transform workersCpuTime \<noteq> None" "transformedUsage workersCpuTime 0 = 0"
    by (simp_all add: workersCpuTime_fields transformedUsage_def)
  from shape rows storage absent mismatch hyps(1,2) account transformed show ?thesis
    by (intro conjI)
qed


subsection \<open>Combining confidence samples\<close>


lemma combineSamples_positive: "combineSamples ss = Some c \<Longrightarrow> 0 < estimate c"
  by (auto simp: combineSamples_def Let_def split: if_splits)
















subsection \<open>The batched runner\<close>






lemma promiseAllSizes_simps [simp]:
  "promiseAllSizes [] = []"
  "promiseAllSizes (xs @ ys) = promiseAllSizes xs @ promiseAllSizes ys"
  "promiseAllSizes (PromiseAll n # xs) = n # promiseAllSizes xs"
  "promiseAllSizes (SetTimeout ms # xs) = promiseAllSizes xs"
  "promiseAllSizes (Query qq v # xs) = promiseAllSizes xs"
  by (simp_all add: promiseAllSizes_def)




lemma queriesOf_simps [simp]:
  "queriesOf [] = []"
  "queriesOf (xs @ ys) = queriesOf xs @ queriesOf ys"
  "queriesOf (ev # xs) = (if isQuery ev then ev # queriesOf xs else queriesOf xs)"
  by (simp_all add: queriesOf_def)
















subsection \<open>All configured products\<close>





subsection \<open>Time filters\<close>

lemma digitChar_not_T: "digitChar n \<noteq> CHR ''T''"
  by (simp add: digitChar_def Let_def)

lemma padDigits_no_T: "CHR ''T'' \<notin> set (padDigits w n)"
proof (induction w arbitrary: n)
  case 0
  show ?case by simp
next
  case (Suc w)
  from Suc[of "n div 10"] digitChar_not_T[of n] show ?case by simp
qed

lemma isoDate_no_T: "CHR ''T'' \<notin> set (isoDate d)"
  by (simp add: isoDate_def isoYear_def padDigits_no_T del: padDigits.simps)

lemma formatDate_date: "formatDateForQuery d ''date'' = isoDate d"
proof -
  have "takeWhile (\<lambda>c. c \<noteq> CHR ''T'') (isoDate d @ (CHR ''T'' # isoTime d @ ''Z'')) = isoDate d"
    using isoDate_no_T[of d] by (subst takeWhile_append2) auto
  then show ?thesis
    by (simp add: formatDateForQuery_def toISOString_def beforeFirstT_def)
qed

lemma formatDate_timestamp: "ff \<noteq> ''date'' \<Longrightarrow> formatDateForQuery d ff = toISOString d"
  by (simp add: formatDateForQuery_def)

lemma try_requests:
  "\<forall>ev\<in>set (snd (snd (queryProductUsage_try env tok acc product bs be filters result))).
     (scope_p product = Account
        \<and> ev = accountRequest acc product filters (boundDate product bs) (boundDate product be))
     \<or> (scope_p product = Zone
        \<and> (\<exists>z. ev = zoneRequest product filters (boundDate product bs) (boundDate product be) z))"
proof (cases "scope_p product")
  case Account
  then show ?thesis
    by (simp add: try_account split: sum.splits)
next
  case Zone
  show ?thesis
  proof (cases "zoneTags product = None \<or> zoneTags product = Some []")
    case True
    show ?thesis by (simp add: try_zone_no_tags[OF Zone True])
  next
    case False
    then obtain zs where zs: "zoneTags product = Some zs" "zs \<noteq> []" by auto
    let ?f = "zoneOutcome env tok product filters (boundDate product bs) (boundDate product be)"
    show ?thesis
    proof (cases "\<forall>z\<in>set zs. responds (?f z)")
      case True
      show ?thesis
        using Zone by (auto simp: try_zone_all_respond[OF Zone zs True])
    next
      case False
      from first_throwing_zone[OF this] obtain pre z post ex where
        d: "zs = pre @ z # post" "\<forall>z\<in>set pre. responds (?f z)" "?f z = Inl ex" by blast
      from zs d have t: "zoneTags product = Some (pre @ z # post)" by simp
      show ?thesis
        using Zone by (auto simp: try_zone_throws[OF Zone t d(2) d(3)])
    qed
  qed
qed

lemma queryProductUsage_requests:
  "ev \<in> set (snd (queryProductUsage env tok acc product bs be filters)) \<Longrightarrow>
     (scope_p product = Account
        \<and> ev = accountRequest acc product filters (boundDate product bs) (boundDate product be))
     \<or> (scope_p product = Zone
        \<and> (\<exists>z. ev = zoneRequest product filters (boundDate product bs) (boundDate product be) z))"
  using try_requests[of env tok acc product bs be filters "initialResult product bs be"]
  by (auto simp: queryProductUsage_def split: prod.splits)

lemma example_workers_trace:
  "snd (queryProductUsage exampleEnv tok acc workersCpuTime bs be filters)
     = [accountRequest acc workersCpuTime filters (boundDate workersCpuTime bs) (boundDate workersCpuTime be)]"
  by (simp add: queryProductUsage_def try_account workersCpuTime_fields example_account_outcome)

lemma workersCpuTime_filterField:
  "filterFieldOf workersCpuTime = ''datetime''" "dimensionFilters workersCpuTime = None"
  by (simp_all add: workersCpuTime_def mergeProductConfig_def workers_cpu_time_def filterFieldOf_def
        ProductDefinition.defs ProductRuntime.defs)

lemma occurrences_skip:
  "c \<notin> set u \<Longrightarrow> occurrences (c # p) (u @ r) = occurrences (c # p) r"
  by (induction u) auto

lemma occurrences_none: "c \<notin> set u \<Longrightarrow> occurrences (c # p) u = 0"
  by (induction u) auto

lemma no_dollar_layout:
  "CHR ''$'' \<notin> set NL" "CHR ''$'' \<notin> set (SPACES n)" "CHR ''$'' \<notin> set (TABS n)"
  by (simp_all add: NL_def SPACES_def TABS_def)

lemma no_dollar_join:
  "CHR ''$'' \<notin> set sep \<Longrightarrow> \<forall>x\<in>set xs. CHR ''$'' \<notin> set x \<Longrightarrow> CHR ''$'' \<notin> set (join sep xs)"
  by (induction sep xs rule: join.induct) auto

lemma no_dollar_additional: "CHR ''$'' \<notin> set (buildAdditionalFilters ds filters)"
  by (auto simp: buildAdditionalFilters_def Let_def split: option.splits)

lemma no_dollar_aggregation:
  "CHR ''$'' \<notin> set field \<Longrightarrow> CHR ''$'' \<notin> set (buildAggregationFields field agg inc)"
  by (cases agg) (simp_all add: buildConfidenceBlock_def Let_def no_dollar_layout)

lemma no_dollar_filterConfig:
  "CHR ''$'' \<notin> set (graphqlType (getFilterConfig ff))"
  "CHR ''$'' \<notin> set (filterStart (getFilterConfig ff))"
  "CHR ''$'' \<notin> set (filterEnd (getFilterConfig ff))"
  by (simp_all add: getFilterConfig_def)

lemma queryTemplate_variables:
  assumes "CHR ''$'' \<notin> set ds" "CHR ''$'' \<notin> set additionalFilters"
    "CHR ''$'' \<notin> set dimensionFilterStr" "CHR ''$'' \<notin> set aggregationFields"
    "CHR ''$'' \<notin> set (graphqlType fc)" "CHR ''$'' \<notin> set (filterStart fc)"
    "CHR ''$'' \<notin> set (filterEnd fc)"
  shows "occurrences ''$start'' (queryTemplate ''ZoneUsage'' ''zoneTag'' ''zones'' ds fc
            additionalFilters dimensionFilterStr aggregationFields) = 2"
    "occurrences ''$end'' (queryTemplate ''ZoneUsage'' ''zoneTag'' ''zones'' ds fc
            additionalFilters dimensionFilterStr aggregationFields) = 2"
    "occurrences ''$start'' (queryTemplate ''AccountUsage'' ''accountTag'' ''accounts'' ds fc
            additionalFilters dimensionFilterStr aggregationFields) = 2"
    "occurrences ''$end'' (queryTemplate ''AccountUsage'' ''accountTag'' ''accounts'' ds fc
            additionalFilters dimensionFilterStr aggregationFields) = 2"
  using assms
  by (simp_all add: queryTemplate_def occurrences_skip occurrences_none no_dollar_layout)


text \<open>
  Claim C9, as amended. The time filter of a product selects one of three dialects:
  the field names \<open>date_geq\<close>, \<open>date_lt\<close> with the GraphQL type \<open>Date\<close> for \<open>date\<close>;
  \<open>datetimeHour_geq\<close>, \<open>datetimeHour_lt\<close> with \<open>Time\<close> for \<open>datetimeHour\<close>; and
  \<open>datetime_geq\<close>, \<open>datetime_lt\<close> with \<open>Time\<close> for \<open>datetime\<close> and every other value.
  The text of a zone query and of an account query is given in full: it declares
  \<open>$start\<close> and \<open>$end\<close> with the type of the dialect and its filter object consists of
  the two field names of the same dialect, bound to \<open>$start\<close> and \<open>$end\<close>, followed by
  the additional filters and the dimension filters. When the dataset, the field and
  the dimension filters contain no \<open>$\<close>, each of \<open>$start\<close> and \<open>$end\<close> occurs exactly
  twice in the text, once declared and once used, so that no second time filter is
  bound to the window and the dialects are not mixed within a query. A bound of the
  window is bound as the calendar date \<open>YYYY-MM-DD\<close> (the timestamp up to its \<open>T\<close>) for
  \<open>date\<close> and as the full timestamp for \<open>datetime\<close> and for \<open>datetimeHour\<close> alike: no
  truncation to the hour takes place, and the value is on the hour when the date is.
  Every request that \<open>queryProductUsage\<close> sends pairs the query text built for the
  time filter of the product with the two bounds formatted for the same time filter.
\<close>

theorem time_filter_dialect:
  "getFilterConfig ''date''
     = \<lparr>filterStart = ''date_geq'', filterEnd = ''date_lt'', graphqlType = ''Date''\<rparr>
   \<and> getFilterConfig ''datetime''
     = \<lparr>filterStart = ''datetime_geq'', filterEnd = ''datetime_lt'', graphqlType = ''Time''\<rparr>
   \<and> getFilterConfig ''datetimeHour''
     = \<lparr>filterStart = ''datetimeHour_geq'', filterEnd = ''datetimeHour_lt'', graphqlType = ''Time''\<rparr>
   \<and> getFilterConfig ff
       \<in> {\<lparr>filterStart = ''date_geq'', filterEnd = ''date_lt'', graphqlType = ''Date''\<rparr>,
          \<lparr>filterStart = ''datetime_geq'', filterEnd = ''datetime_lt'', graphqlType = ''Time''\<rparr>,
          \<lparr>filterStart = ''datetimeHour_geq'', filterEnd = ''datetimeHour_lt'',
            graphqlType = ''Time''\<rparr>}
   \<and> (ff \<noteq> ''date'' \<and> ff \<noteq> ''datetimeHour''
      \<longrightarrow> getFilterConfig ff
          = \<lparr>filterStart = ''datetime_geq'', filterEnd = ''datetime_lt'', graphqlType = ''Time''\<rparr>)
   \<and> buildZoneQuery ds field agg ff filters dims
        = NL @ SPACES 4 @ ''query ZoneUsage($zoneTag: String!, $start: '' @ graphqlType (getFilterConfig ff)
              @ ''!, $end: '' @ graphqlType (getFilterConfig ff) @ ''!) {''
          @ NL @ SPACES 6 @ ''viewer {''
          @ NL @ SPACES 8 @ ''zones(filter: { zoneTag: $zoneTag }) {''
          @ NL @ SPACES 10 @ ds @ ''(''
          @ NL @ SPACES 12 @ ''filter: { '' @ filterStart (getFilterConfig ff) @ '': $start, ''
              @ filterEnd (getFilterConfig ff) @ '': $end''
              @ buildAdditionalFilters ds filters @ buildDimensionFilters dims @ '' }''
          @ NL @ SPACES 12 @ ''limit: 10000''
          @ NL @ SPACES 10 @ '') {''
          @ NL @ SPACES 12 @ buildAggregationFields field agg (ds \<notin> set NO_CONFIDENCE_DATASETS)
          @ NL @ SPACES 10 @ ''}''
          @ NL @ SPACES 8 @ ''}''
          @ NL @ SPACES 6 @ ''}''
          @ NL @ SPACES 4 @ ''}''
          @ NL @ SPACES 2
   \<and> buildAccountQuery ds field agg ff filters dims
        = NL @ SPACES 4 @ ''query AccountUsage($accountTag: String!, $start: '' @ graphqlType (getFilterConfig ff)
              @ ''!, $end: '' @ graphqlType (getFilterConfig ff) @ ''!) {''
          @ NL @ SPACES 6 @ ''viewer {''
          @ NL @ SPACES 8 @ ''accounts(filter: { accountTag: $accountTag }) {''
          @ NL @ SPACES 10 @ ds @ ''(''
          @ NL @ SPACES 12 @ ''filter: { '' @ filterStart (getFilterConfig ff) @ '': $start, ''
              @ filterEnd (getFilterConfig ff) @ '': $end''
              @ buildAdditionalFilters ds filters @ buildDimensionFilters dims @ '' }''
          @ NL @ SPACES 12 @ ''limit: 10000''
          @ NL @ SPACES 10 @ '') {''
          @ NL @ SPACES 12 @ buildAggregationFields field agg (ds \<notin> set NO_CONFIDENCE_DATASETS)
          @ NL @ SPACES 10 @ ''}''
          @ NL @ SPACES 8 @ ''}''
          @ NL @ SPACES 6 @ ''}''
          @ NL @ SPACES 4 @ ''}''
          @ NL @ SPACES 2
   \<and> (CHR ''$'' \<notin> set ds \<and> CHR ''$'' \<notin> set field \<and> CHR ''$'' \<notin> set (buildDimensionFilters dims)
      \<longrightarrow> occurrences ''$start'' (buildZoneQuery ds field agg ff filters dims) = 2
          \<and> occurrences ''$end'' (buildZoneQuery ds field agg ff filters dims) = 2
          \<and> occurrences ''$start'' (buildAccountQuery ds field agg ff filters dims) = 2
          \<and> occurrences ''$end'' (buildAccountQuery ds field agg ff filters dims) = 2)
   \<and> formatDateForQuery d ''date'' = isoDate d
   \<and> CHR ''T'' \<notin> set (formatDateForQuery d ''date'')
   \<and> formatDateForQuery d ''datetime'' = toISOString d
   \<and> formatDateForQuery d ''datetimeHour'' = toISOString d
   \<and> (minutes d = 0 \<and> seconds d = 0 \<and> milliseconds d = 0
      \<longrightarrow> formatDateForQuery d ''datetimeHour'' = toISOString (truncatedToHour d))
   \<and> (ev \<in> set (snd (queryProductUsage env tok acc product bs be filters))
      \<longrightarrow> ev = Query (buildAccountQuery (dataset product) (field_p product) (aggregationOf product)
                        (filterFieldOf product) filters (dimensionFilters product))
                 (AccountVariables acc (formatDateForQuery bs (filterFieldOf product))
                    (formatDateForQuery be (filterFieldOf product)))
        \<or> (\<exists>z. ev = Query (buildZoneQuery (dataset product) (field_p product) (aggregationOf product)
                              (filterFieldOf product) filters (dimensionFilters product))
                       (ZoneVariables z (formatDateForQuery bs (filterFieldOf product))
                          (formatDateForQuery be (filterFieldOf product)))))"
proof -
  have configs: "getFilterConfig ''date''
     = \<lparr>filterStart = ''date_geq'', filterEnd = ''date_lt'', graphqlType = ''Date''\<rparr>"
    "getFilterConfig ''datetime''
     = \<lparr>filterStart = ''datetime_geq'', filterEnd = ''datetime_lt'', graphqlType = ''Time''\<rparr>"
    "getFilterConfig ''datetimeHour''
     = \<lparr>filterStart = ''datetimeHour_geq'', filterEnd = ''datetimeHour_lt'', graphqlType = ''Time''\<rparr>"
    by (simp_all add: getFilterConfig_def)
  have one: "getFilterConfig ff
       \<in> {\<lparr>filterStart = ''date_geq'', filterEnd = ''date_lt'', graphqlType = ''Date''\<rparr>,
          \<lparr>filterStart = ''datetime_geq'', filterEnd = ''datetime_lt'', graphqlType = ''Time''\<rparr>,
          \<lparr>filterStart = ''datetimeHour_geq'', filterEnd = ''datetimeHour_lt'',
            graphqlType = ''Time''\<rparr>}"
    by (simp add: getFilterConfig_def)
  have other: "ff \<noteq> ''date'' \<and> ff \<noteq> ''datetimeHour''
      \<longrightarrow> getFilterConfig ff
          = \<lparr>filterStart = ''datetime_geq'', filterEnd = ''datetime_lt'', graphqlType = ''Time''\<rparr>"
    by (simp add: getFilterConfig_def)
  have zq: "buildZoneQuery ds field agg ff filters dims
        = NL @ SPACES 4 @ ''query ZoneUsage($zoneTag: String!, $start: '' @ graphqlType (getFilterConfig ff)
              @ ''!, $end: '' @ graphqlType (getFilterConfig ff) @ ''!) {''
          @ NL @ SPACES 6 @ ''viewer {''
          @ NL @ SPACES 8 @ ''zones(filter: { zoneTag: $zoneTag }) {''
          @ NL @ SPACES 10 @ ds @ ''(''
          @ NL @ SPACES 12 @ ''filter: { '' @ filterStart (getFilterConfig ff) @ '': $start, ''
              @ filterEnd (getFilterConfig ff) @ '': $end''
              @ buildAdditionalFilters ds filters @ buildDimensionFilters dims @ '' }''
          @ NL @ SPACES 12 @ ''limit: 10000''
          @ NL @ SPACES 10 @ '') {''
          @ NL @ SPACES 12 @ buildAggregationFields field agg (ds \<notin> set NO_CONFIDENCE_DATASETS)
          @ NL @ SPACES 10 @ ''}''
          @ NL @ SPACES 8 @ ''}''
          @ NL @ SPACES 6 @ ''}''
          @ NL @ SPACES 4 @ ''}''
          @ NL @ SPACES 2"
    by (simp add: buildZoneQuery_def queryTemplate_def Let_def)
  have aq: "buildAccountQuery ds field agg ff filters dims
        = NL @ SPACES 4 @ ''query AccountUsage($accountTag: String!, $start: '' @ graphqlType (getFilterConfig ff)
              @ ''!, $end: '' @ graphqlType (getFilterConfig ff) @ ''!) {''
          @ NL @ SPACES 6 @ ''viewer {''
          @ NL @ SPACES 8 @ ''accounts(filter: { accountTag: $accountTag }) {''
          @ NL @ SPACES 10 @ ds @ ''(''
          @ NL @ SPACES 12 @ ''filter: { '' @ filterStart (getFilterConfig ff) @ '': $start, ''
              @ filterEnd (getFilterConfig ff) @ '': $end''
              @ buildAdditionalFilters ds filters @ buildDimensionFilters dims @ '' }''
          @ NL @ SPACES 12 @ ''limit: 10000''
          @ NL @ SPACES 10 @ '') {''
          @ NL @ SPACES 12 @ buildAggregationFields field agg (ds \<notin> set NO_CONFIDENCE_DATASETS)
          @ NL @ SPACES 10 @ ''}''
          @ NL @ SPACES 8 @ ''}''
          @ NL @ SPACES 6 @ ''}''
          @ NL @ SPACES 4 @ ''}''
          @ NL @ SPACES 2"
    by (simp add: buildAccountQuery_def queryTemplate_def Let_def)
  have occ: "CHR ''$'' \<notin> set ds \<and> CHR ''$'' \<notin> set field \<and> CHR ''$'' \<notin> set (buildDimensionFilters dims)
      \<longrightarrow> occurrences ''$start'' (buildZoneQuery ds field agg ff filters dims) = 2
          \<and> occurrences ''$end'' (buildZoneQuery ds field agg ff filters dims) = 2
          \<and> occurrences ''$start'' (buildAccountQuery ds field agg ff filters dims) = 2
          \<and> occurrences ''$end'' (buildAccountQuery ds field agg ff filters dims) = 2"
    by (simp add: buildZoneQuery_def buildAccountQuery_def Let_def queryTemplate_variables
          no_dollar_additional no_dollar_aggregation no_dollar_filterConfig)
  have dates: "formatDateForQuery d ''date'' = isoDate d"
    "CHR ''T'' \<notin> set (formatDateForQuery d ''date'')"
    "formatDateForQuery d ''datetime'' = toISOString d"
    "formatDateForQuery d ''datetimeHour'' = toISOString d"
    by (simp_all add: formatDate_date isoDate_no_T formatDate_timestamp)
  have hour: "minutes d = 0 \<and> seconds d = 0 \<and> milliseconds d = 0
      \<longrightarrow> formatDateForQuery d ''datetimeHour'' = toISOString (truncatedToHour d)"
    by (simp add: formatDate_timestamp truncatedToHour_def toISOString_def isoDate_def isoTime_def)
  have reqs: "ev \<in> set (snd (queryProductUsage env tok acc product bs be filters))
      \<longrightarrow> ev = Query (buildAccountQuery (dataset product) (field_p product) (aggregationOf product)
                        (filterFieldOf product) filters (dimensionFilters product))
                 (AccountVariables acc (formatDateForQuery bs (filterFieldOf product))
                    (formatDateForQuery be (filterFieldOf product)))
        \<or> (\<exists>z. ev = Query (buildZoneQuery (dataset product) (field_p product) (aggregationOf product)
                              (filterFieldOf product) filters (dimensionFilters product))
                       (ZoneVariables z (formatDateForQuery bs (filterFieldOf product))
                          (formatDateForQuery be (filterFieldOf product))))"
    using queryProductUsage_requests[of ev env tok acc product bs be filters]
    by (auto simp: accountRequest_def accountQuery_def zoneRequest_def zoneQuery_def boundDate_def)
  from configs one other zq aq occ dates hour reqs show ?thesis by (intro conjI)
qed


theorem time_filter_dialect_witness:
  "minutes exampleStart = 0 \<and> seconds exampleStart = 0 \<and> milliseconds exampleStart = 0
   \<and> formatDateForQuery exampleStart ''datetimeHour'' = toISOString (truncatedToHour exampleStart)
   \<and> formatDateForQuery exampleStart ''datetimeHour'' = ''2024-03-01T00:00:00.000Z''
   \<and> formatDateForQuery exampleStart ''date'' = ''2024-03-01''
   \<and> ''datetime'' \<noteq> ''date'' \<and> ''datetime'' \<noteq> ''datetimeHour''
   \<and> getFilterConfig ''datetime''
       = \<lparr>filterStart = ''datetime_geq'', filterEnd = ''datetime_lt'', graphqlType = ''Time''\<rparr>
   \<and> CHR ''$'' \<notin> set ''workersInvocationsAdaptive'' \<and> CHR ''$'' \<notin> set ''cpuTimeUs''
   \<and> CHR ''$'' \<notin> set (buildDimensionFilters None)
   \<and> occurrences ''$start'' (buildAccountQuery ''workersInvocationsAdaptive'' ''cpuTimeUs'' AggSum
         ''datetime'' None None) = 2
   \<and> occurrences ''$end'' (buildAccountQuery ''workersInvocationsAdaptive'' ''cpuTimeUs'' AggSum
         ''datetime'' None None) = 2
   \<and> accountRequest ''account'' workersCpuTime None (boundDate workersCpuTime exampleStart)
         (boundDate workersCpuTime exampleEnd)
       \<in> set (snd (queryProductUsage exampleEnv ''token'' ''account'' workersCpuTime
                    exampleStart exampleEnd None))
   \<and> accountRequest ''account'' workersCpuTime None (boundDate workersCpuTime exampleStart)
         (boundDate workersCpuTime exampleEnd)
       = Query (buildAccountQuery ''workersInvocationsAdaptive'' ''cpuTimeUs'' AggSum ''datetime''
                  None None)
           (AccountVariables ''account'' ''2024-03-01T00:00:00.000Z'' ''2024-04-01T00:00:00.000Z'')"
proof -
  let ?ev = "accountRequest ''account'' workersCpuTime None
               (boundDate workersCpuTime exampleStart) (boundDate workersCpuTime exampleEnd)"
  let ?ds = "''workersInvocationsAdaptive''" and ?field = "''cpuTimeUs''"
  note t = time_filter_dialect [where d = exampleStart and ev = ?ev
          and env = exampleEnv and tok = "''token''" and acc = "''account''" and product = workersCpuTime
          and bs = exampleStart and be = exampleEnd and filters = None
          and ds = ?ds and field = ?field and agg = AggSum and ff = "''datetime''" and dims = None]
  have zero: "minutes exampleStart = 0 \<and> seconds exampleStart = 0 \<and> milliseconds exampleStart = 0"
    by (simp add: exampleStart_def midnight_def)
  from t have "minutes exampleStart = 0 \<and> seconds exampleStart = 0 \<and> milliseconds exampleStart = 0
      \<longrightarrow> formatDateForQuery exampleStart ''datetimeHour'' = toISOString (truncatedToHour exampleStart)"
    by (elim conjE)
  with zero have hour: "formatDateForQuery exampleStart ''datetimeHour''
      = toISOString (truncatedToHour exampleStart)" by simp
  from t have d: "formatDateForQuery exampleStart ''date'' = isoDate exampleStart"
    by (elim conjE)
  have vals: "toISOString (truncatedToHour exampleStart) = ''2024-03-01T00:00:00.000Z''"
    "isoDate exampleStart = ''2024-03-01''"
    by (simp_all add: exampleStart_def truncatedToHour_def iso_eval)
  have kind: "''datetime'' \<noteq> ''date'' \<and> ''datetime'' \<noteq> ''datetimeHour''" by simp
  from t have "''datetime'' \<noteq> ''date'' \<and> ''datetime'' \<noteq> ''datetimeHour''
      \<longrightarrow> getFilterConfig ''datetime''
          = \<lparr>filterStart = ''datetime_geq'', filterEnd = ''datetime_lt'', graphqlType = ''Time''\<rparr>"
    by (elim conjE)
  with kind have cfg: "getFilterConfig ''datetime''
      = \<lparr>filterStart = ''datetime_geq'', filterEnd = ''datetime_lt'', graphqlType = ''Time''\<rparr>"
    by blast
  have plain: "CHR ''$'' \<notin> set ?ds \<and> CHR ''$'' \<notin> set ?field
      \<and> CHR ''$'' \<notin> set (buildDimensionFilters None)"
    by (simp add: buildDimensionFilters_def)
  from t have "CHR ''$'' \<notin> set ?ds \<and> CHR ''$'' \<notin> set ?field
      \<and> CHR ''$'' \<notin> set (buildDimensionFilters None)
      \<longrightarrow> occurrences ''$start'' (buildZoneQuery ?ds ?field AggSum ''datetime'' None None) = 2
          \<and> occurrences ''$end'' (buildZoneQuery ?ds ?field AggSum ''datetime'' None None) = 2
          \<and> occurrences ''$start'' (buildAccountQuery ?ds ?field AggSum ''datetime'' None None) = 2
          \<and> occurrences ''$end'' (buildAccountQuery ?ds ?field AggSum ''datetime'' None None) = 2"
    by (elim conjE)
  with plain have occ:
    "occurrences ''$start'' (buildAccountQuery ?ds ?field AggSum ''datetime'' None None) = 2"
    "occurrences ''$end'' (buildAccountQuery ?ds ?field AggSum ''datetime'' None None) = 2"
    by blast+
  have mem: "?ev \<in> set (snd (queryProductUsage exampleEnv ''token'' ''account'' workersCpuTime
                    exampleStart exampleEnd None))"
    by (simp add: example_workers_trace)
  from t have "?ev \<in> set (snd (queryProductUsage exampleEnv ''token'' ''account'' workersCpuTime
                    exampleStart exampleEnd None))
      \<longrightarrow> ?ev = Query (buildAccountQuery (dataset workersCpuTime) (field_p workersCpuTime)
                        (aggregationOf workersCpuTime) (filterFieldOf workersCpuTime) None
                        (dimensionFilters workersCpuTime))
                 (AccountVariables ''account''
                    (formatDateForQuery exampleStart (filterFieldOf workersCpuTime))
                    (formatDateForQuery exampleEnd (filterFieldOf workersCpuTime)))
        \<or> (\<exists>z. ?ev = Query (buildZoneQuery (dataset workersCpuTime) (field_p workersCpuTime)
                              (aggregationOf workersCpuTime) (filterFieldOf workersCpuTime) None
                              (dimensionFilters workersCpuTime))
                       (ZoneVariables z (formatDateForQuery exampleStart (filterFieldOf workersCpuTime))
                          (formatDateForQuery exampleEnd (filterFieldOf workersCpuTime))))"
    by (elim conjE)
  with mem have "?ev = Query (buildAccountQuery (dataset workersCpuTime) (field_p workersCpuTime)
                        (aggregationOf workersCpuTime) (filterFieldOf workersCpuTime) None
                        (dimensionFilters workersCpuTime))
                 (AccountVariables ''account''
                    (formatDateForQuery exampleStart (filterFieldOf workersCpuTime))
                    (formatDateForQuery exampleEnd (filterFieldOf workersCpuTime)))"
    by (auto simp: accountRequest_def)
  then have qtext: "?ev
       = Query (buildAccountQuery ?ds ?field AggSum ''datetime'' None None)
           (AccountVariables ''account'' ''2024-03-01T00:00:00.000Z'' ''2024-04-01T00:00:00.000Z'')"
    by (simp add: workersCpuTime_fields workersCpuTime_filterField formatDate_timestamp
          exampleStart_def exampleEnd_def iso_eval)
  from zero hour d vals kind cfg plain occ mem qtext show ?thesis by simp
qed

text \<open>
  The claim as stated fails: the time filter of the Zaraz events is \<open>datetimeHour\<close>, and
  the bound for 2024-03-15 10:20:30.456 keeps its minutes, seconds and milliseconds.
\<close>

theorem time_filter_dialect_counterexample:
  "filterFieldOf (zarazOn [''Z1'']) = ''datetimeHour''
   \<and> boundDate (zarazOn [''Z1'']) exampleNow = ''2024-03-15T10:20:30.456Z''
   \<and> boundDate (zarazOn [''Z1'']) exampleNow \<noteq> toISOString (truncatedToHour exampleNow)"
  by (simp add: boundDate_def zarazOn_fields formatDateForQuery_def exampleNow_def truncatedToHour_def
        iso_eval)

end
